theory Spec2Isabelle
  imports Complex_Main "HOL-Library.Word"
begin

section \<open>Numbers, arrays and vectors\<close>

text \<open>
  A JavaScript number is modelled as a real number, with one extra value \<open>NaN\<close>.
  The rounding of IEEE doubles is not modelled: arithmetic is exact.  \<open>NaN\<close> arises in
  this program from \<open>0 / 0\<close> and from arithmetic on \<open>undefined\<close> (a read past the end of an
  array); every arithmetic operation propagates it.
\<close>

datatype jsnum = NaN | Num real

fun jadd :: "jsnum \<Rightarrow> jsnum \<Rightarrow> jsnum" where
  "jadd (Num a) (Num b) = Num (a + b)"
| "jadd _ _ = NaN"

fun jsub :: "jsnum \<Rightarrow> jsnum \<Rightarrow> jsnum" where
  "jsub (Num a) (Num b) = Num (a - b)"
| "jsub _ _ = NaN"

fun jmul :: "jsnum \<Rightarrow> jsnum \<Rightarrow> jsnum" where
  "jmul (Num a) (Num b) = Num (a * b)"
| "jmul _ _ = NaN"

text \<open>
  Division: \<open>0 / 0\<close> is \<open>NaN\<close>.  A non-zero number divided by zero is an infinity in
  JavaScript, which this model has no value for and also maps to \<open>NaN\<close>.  The program
  never does that: its divisors are non-zero constants, the layer radius, which is
  positive whenever it is a number (lemma \<open>radiusBase_pos\<close>), and \<open>LAYER_COUNT - 1\<close>,
  which is zero only for a single layer, whose index is 0.
\<close>

fun jdiv :: "jsnum \<Rightarrow> jsnum \<Rightarrow> jsnum" where
  "jdiv (Num a) (Num b) = (if b = 0 then NaN else Num (a / b))"
| "jdiv _ _ = NaN"

text \<open>\<open>Math.min\<close> and \<open>Math.max\<close> return \<open>NaN\<close> as soon as one argument is \<open>NaN\<close>.\<close>

fun jmin :: "jsnum \<Rightarrow> jsnum \<Rightarrow> jsnum" where
  "jmin (Num a) (Num b) = Num (min a b)"
| "jmin _ _ = NaN"

fun jmax :: "jsnum \<Rightarrow> jsnum \<Rightarrow> jsnum" where
  "jmax (Num a) (Num b) = Num (max a b)"
| "jmax _ _ = NaN"

text \<open>A comparison with \<open>NaN\<close> is false.\<close>

fun jless :: "jsnum \<Rightarrow> jsnum \<Rightarrow> bool" where
  "jless (Num a) (Num b) = (a < b)"
| "jless _ _ = False"

text \<open>
  An array read \<open>xs[k]\<close>: \<open>None\<close> is JavaScript's \<open>undefined\<close>, the value of a read at
  an index that is not below the length.  \<open>to_number\<close> is the conversion applied when
  such a value enters arithmetic: \<open>undefined\<close> becomes \<open>NaN\<close>.
\<close>

definition js_get :: "'a list \<Rightarrow> nat \<Rightarrow> 'a option" where
  "js_get xs k = (if k < length xs then Some (xs ! k) else None)"

fun to_number :: "jsnum option \<Rightarrow> jsnum" where
  "to_number None = NaN"
| "to_number (Some v) = v"

text \<open>The three reads \<open>xs[i * 3]\<close>, \<open>xs[i * 3 + 1]\<close>, \<open>xs[i * 3 + 2]\<close> of one instance.\<close>

definition get3 :: "'a list \<Rightarrow> nat \<Rightarrow> 'a option \<times> 'a option \<times> 'a option" where
  "get3 xs i = (js_get xs (i * 3), js_get xs (i * 3 + 1), js_get xs (i * 3 + 2))"

type_synonym vec3 = "jsnum \<times> jsnum \<times> jsnum"

text \<open>The \<open>k\<close>-th call of \<open>Math.random()\<close> (counted from 0) returns \<open>rnd k\<close>.\<close>

type_synonym random_source = "nat \<Rightarrow> real"

definition uniform01 :: "random_source \<Rightarrow> bool" where
  "uniform01 rnd = (\<forall>k. 0 \<le> rnd k \<and> rnd k < 1)"


section \<open>StylizedTree: the instance layout (index.tsx, lines 184--223)\<close>

definition LAYER_COUNT :: nat where
  "LAYER_COUNT = 9"

definition BRUSH_COUNT :: nat where
  "BRUSH_COUNT = 1100"

text \<open>
  The mutable variables of the layout: the three arrays \<open>pos\<close>, \<open>rot\<close>, \<open>sca\<close>, the
  counter \<open>index\<close>, and the number of calls of \<open>Math.random()\<close> made so far.
\<close>

record layout_state =
  pos :: "jsnum list"
  rot :: "jsnum list"
  sca :: "jsnum list"
  index :: nat
  calls :: nat

definition layout_init :: layout_state where
  "layout_init = \<lparr>pos = [], rot = [], sca = [], index = 0, calls = 0\<rparr>"

text \<open>The per-layer constants; \<open>L\<close> is the layer count (\<open>LAYER_COUNT\<close> in the source).\<close>

definition layerProgress :: "nat \<Rightarrow> nat \<Rightarrow> jsnum" where
  "layerProgress L l = jdiv (Num (real l)) (Num (real_of_int (int L - 1)))"

definition yBase :: "nat \<Rightarrow> real" where
  "yBase l = - 3.5 + real l * 1.3"

definition radiusBase :: "nat \<Rightarrow> nat \<Rightarrow> jsnum" where
  "radiusBase L l = jmul (Num 3.8) (jsub (Num 1) (jmul (layerProgress L l) (Num 0.95)))"

text \<open>
  The body of the inner loop after the \<open>break\<close> test.  \<open>lookAt p target\<close> stands for the
  Euler angles that three.js's \<open>Object3D.lookAt\<close> leaves in \<open>dummy.rotation\<close> for an
  object at position \<open>p\<close>; it is library code and a parameter here.
\<close>

definition brush :: "random_source \<Rightarrow> (vec3 \<Rightarrow> vec3 \<Rightarrow> vec3) \<Rightarrow> real \<Rightarrow> jsnum \<Rightarrow>
    layout_state \<Rightarrow> layout_state" where
  "brush rnd lookAt yb rb st =
    (let c = calls st;
         r = jmul (Num (sqrt (rnd c))) rb;
         angle = rnd (c + 1) * pi * 2;
         h = rnd (c + 2) * 1.0;
         x = jmul (Num (cos angle)) r;
         z = jmul (Num (sin angle)) r;
         y = jadd (Num yb) (jmul (Num h) (jsub (Num 1) (jmul (jdiv r rb) (Num 0.3))));
         (rx, ry, rz) = lookAt (x, y, z) (Num 0, jadd y (Num 5), Num 0);
         rx' = jadd rx (Num ((rnd (c + 3) - 0.5) * 1.0));
         rz' = jadd rz (Num ((rnd (c + 4) - 0.5) * 1.0));
         ry' = jadd ry (Num ((rnd (c + 5) - 0.5) * 2.0));
         s = 0.3 + rnd (c + 6) * 0.5
     in st\<lparr>pos := pos st @ [x, y, z],
            rot := rot st @ [rx', ry', rz'],
            sca := sca st @ [Num s, Num s, Num s],
            index := index st + 1,
            calls := c + 7\<rparr>)"

text \<open>
  The inner loop \<open>for (i = 0; i < count; i++)\<close>, by the number of iterations left (the
  body does not read \<open>i\<close>); \<open>N\<close> is the instance count (\<open>BRUSH_COUNT\<close>).
\<close>

fun layer_loop :: "random_source \<Rightarrow> (vec3 \<Rightarrow> vec3 \<Rightarrow> vec3) \<Rightarrow> nat \<Rightarrow> real \<Rightarrow> jsnum \<Rightarrow>
    nat \<Rightarrow> layout_state \<Rightarrow> layout_state" where
  "layer_loop rnd lookAt N yb rb 0 st = st"
| "layer_loop rnd lookAt N yb rb (Suc n) st =
    (if index st \<ge> N then st
     else layer_loop rnd lookAt N yb rb n (brush rnd lookAt yb rb st))"

definition layer_step :: "random_source \<Rightarrow> (vec3 \<Rightarrow> vec3 \<Rightarrow> vec3) \<Rightarrow> nat \<Rightarrow> nat \<Rightarrow>
    nat \<Rightarrow> layout_state \<Rightarrow> layout_state" where
  "layer_step rnd lookAt N L l st =
    (let count = N div L
     in layer_loop rnd lookAt N (yBase l) (radiusBase L l) count st)"

text \<open>
  The outer loop \<open>for (l = 0; l < LAYER_COUNT; l++)\<close>.  For \<open>L = 0\<close> the body, and with
  it \<open>N div L\<close>, is never evaluated.
\<close>

definition layout :: "random_source \<Rightarrow> (vec3 \<Rightarrow> vec3 \<Rightarrow> vec3) \<Rightarrow> nat \<Rightarrow> nat \<Rightarrow> layout_state" where
  "layout rnd lookAt N L = fold (layer_step rnd lookAt N L) [0..<L] layout_init"

definition tree_layout :: "random_source \<Rightarrow> (vec3 \<Rightarrow> vec3 \<Rightarrow> vec3) \<Rightarrow> layout_state" where
  "tree_layout rnd lookAt = layout rnd lookAt BRUSH_COUNT LAYER_COUNT"

text \<open>The number of instances an array of coordinate triples holds.\<close>

definition instances :: "jsnum list \<Rightarrow> nat" where
  "instances xs = length xs div 3"

text \<open>
  Instance \<open>k\<close> of the position array \<open>xs\<close> lies within the disk of layer \<open>l\<close>: its
  \<open>x\<close> and \<open>z\<close> are numbers, and so is the layer's radius, and the distance from the
  axis is at most that radius.  As in JavaScript, the comparison fails when a \<open>NaN\<close>
  is involved.
\<close>

definition within_radius :: "nat \<Rightarrow> nat \<Rightarrow> jsnum list \<Rightarrow> nat \<Rightarrow> bool" where
  "within_radius L l xs k =
     (case radiusBase L l of
        NaN \<Rightarrow> False
      | Num b \<Rightarrow>
          (case get3 xs k of
             (Some (Num x), _, Some (Num z)) \<Rightarrow> sqrt (x\<^sup>2 + z\<^sup>2) \<le> b
           | _ \<Rightarrow> False))"

text \<open>The loop invariant: the position array holds \<open>index\<close> instances, each within
  the disk of its layer (\<open>c\<close> is the number of instances per layer).\<close>

definition good :: "nat \<Rightarrow> nat \<Rightarrow> layout_state \<Rightarrow> bool" where
  "good L c st \<longleftrightarrow> length (pos st) = 3 * index st \<and>
     (\<forall>k<index st. within_radius L (k div c) (pos st) k)"

text \<open>Sample inputs: a random source that always returns \<open>v\<close>, and a \<open>lookAt\<close> that
  leaves the rotation at zero.\<close>

definition const_source :: "real \<Rightarrow> random_source" where
  "const_source v k = v"

definition sample_lookAt :: "vec3 \<Rightarrow> vec3 \<Rightarrow> vec3" where
  "sample_lookAt p target = (Num 0, Num 0, Num 0)"


section \<open>StylizedTree: the two effects that read the layout (lines 226--278)\<close>

text \<open>
  The first effect works through \<open>dummy\<close>, the one \<open>Object3D\<close> of the component
  (line 178), which every iteration overwrites and which keeps its state from one
  iteration to the next.  Its position, rotation and scale hold what was last stored
  in them: a number, or \<open>undefined\<close> (\<open>None\<close>).
\<close>

type_synonym v3u = "jsnum option \<times> jsnum option \<times> jsnum option"

record object3d =
  obj_position :: v3u
  obj_rotation :: v3u
  obj_scale :: v3u

text \<open>
  The two setters of three.js (library code).  \<open>Vector3.set(x, y, z)\<close> begins with
  \<open>if (z === undefined) z = this.z\<close>, so an undefined third argument leaves the old
  \<open>z\<close> in place, while \<open>x\<close> and \<open>y\<close> are stored as given.  \<open>Euler.set(x, y, z)\<close> stores
  all three arguments as given.
\<close>

definition Vector3_set :: "v3u \<Rightarrow> v3u \<Rightarrow> v3u" where
  "Vector3_set v a =
     (case v of (vx, vy, vz) \<Rightarrow>
        (case a of (x, y, z) \<Rightarrow> (x, y, (case z of None \<Rightarrow> vz | Some n \<Rightarrow> Some n))))"

definition Euler_set :: "v3u \<Rightarrow> v3u \<Rightarrow> v3u" where
  "Euler_set e a = a"

text \<open>Lines 230--232: the three \<open>set\<close> calls of iteration \<open>i\<close>.\<close>

definition set_dummy :: "layout_state \<Rightarrow> nat \<Rightarrow> object3d \<Rightarrow> object3d" where
  "set_dummy st i dummy =
     \<lparr>obj_position = Vector3_set (obj_position dummy) (get3 (pos st) i),
      obj_rotation = Euler_set (obj_rotation dummy) (get3 (rot st) i),
      obj_scale = Vector3_set (obj_scale dummy) (get3 (sca st) i)\<rparr>"

text \<open>
  One iteration and the loop of the first effect.  \<open>updateMatrix p r s\<close> stands for the
  matrix three.js composes from the position, rotation and scale that \<open>dummy\<close> then
  holds (library code, a parameter); \<open>buf\<close> is the instance-matrix buffer of the mesh,
  written by \<open>setMatrixAt\<close>.  The state is \<open>dummy\<close> together with the buffer.  The
  effect returns at once when the mesh reference is null (\<open>None\<close>).
\<close>

definition initGeometry_step :: "(v3u \<Rightarrow> v3u \<Rightarrow> v3u \<Rightarrow> 'm) \<Rightarrow> layout_state \<Rightarrow> nat \<Rightarrow>
    object3d \<times> 'm list \<Rightarrow> object3d \<times> 'm list" where
  "initGeometry_step updateMatrix st i s =
     (case s of (dummy, buf) \<Rightarrow>
        (let d = set_dummy st i dummy
         in (d, buf[i := updateMatrix (obj_position d) (obj_rotation d) (obj_scale d)])))"

definition initGeometry_loop :: "(v3u \<Rightarrow> v3u \<Rightarrow> v3u \<Rightarrow> 'm) \<Rightarrow> layout_state \<Rightarrow> nat \<Rightarrow>
    object3d \<times> 'm list \<Rightarrow> object3d \<times> 'm list" where
  "initGeometry_loop updateMatrix st N s = fold (initGeometry_step updateMatrix st) [0..<N] s"

definition initGeometry :: "(v3u \<Rightarrow> v3u \<Rightarrow> v3u \<Rightarrow> 'm) \<Rightarrow> layout_state \<Rightarrow>
    object3d \<times> 'm list option \<Rightarrow> object3d \<times> 'm list option" where
  "initGeometry updateMatrix st s =
     (case s of (dummy, meshRef) \<Rightarrow>
        (case meshRef of None \<Rightarrow> (dummy, None)
         | Some buf \<Rightarrow>
             (case initGeometry_loop updateMatrix st BRUSH_COUNT (dummy, buf) of
                (d, b) \<Rightarrow> (d, Some b))))"

text \<open>A newly built \<open>Object3D\<close>: at the origin, not rotated, of scale one.\<close>

definition new_object3d :: object3d where
  "new_object3d =
     \<lparr>obj_position = (Some (Num 0), Some (Num 0), Some (Num 0)),
      obj_rotation = (Some (Num 0), Some (Num 0), Some (Num 0)),
      obj_scale = (Some (Num 1), Some (Num 1), Some (Num 1))\<rparr>"

text \<open>
  Colours.  A \<open>THREE.Color\<close> built from a theme string has three real channels.  The
  constructor is library code and a parameter \<open>mkColor\<close> of the colour effect;
  \<open>hex_color\<close> is the plain reading of \<open>#rrggbb\<close> with lower-case digits, as all strings
  of the theme table are written (each byte divided by 255, without the conversion to a
  working colour space that newer versions of the library add).
\<close>

type_synonym color = "real \<times> real \<times> real"

definition hex_digit :: "char \<Rightarrow> nat" where
  "hex_digit c = length (takeWhile (\<lambda>d. d \<noteq> c) ''0123456789abcdef'')"

definition hex_byte :: "char \<Rightarrow> char \<Rightarrow> real" where
  "hex_byte a b = real (16 * hex_digit a + hex_digit b) / 255"

fun hex_color :: "string \<Rightarrow> color" where
  "hex_color [h, r1, r2, g1, g2, b1, b2] = (hex_byte r1 r2, hex_byte g1 g2, hex_byte b1 b2)"
| "hex_color _ = (1, 1, 1)"

datatype ThemeKey = deepBlue | lightBlue | pink | red | white | green | purple | gold

record theme =
  label :: string
  leavesHigh :: string
  leavesLow :: string
  ribbon :: string
  text_color :: string
  bg :: string
  star :: string

fun THEMES :: "ThemeKey \<Rightarrow> theme" where
  "THEMES deepBlue = \<lparr>label = ''Midnight'', leavesHigh = ''#3b82f6'', leavesLow = ''#1e3a8a'',
     ribbon = ''#fcd34d'', text_color = ''#451a03'', bg = ''#0b1120'', star = ''#fbbf24''\<rparr>"
| "THEMES lightBlue = \<lparr>label = ''Frozen'', leavesHigh = ''#e0f2fe'', leavesLow = ''#0ea5e9'',
     ribbon = ''#1e3a8a'', text_color = ''#ffffff'', bg = ''#0f172a'', star = ''#bae6fd''\<rparr>"
| "THEMES pink = \<lparr>label = ''Dreamy'', leavesHigh = ''#fbcfe8'', leavesLow = ''#db2777'',
     ribbon = ''#fff1f2'', text_color = ''#831843'', bg = ''#4a044e'', star = ''#fce7f3''\<rparr>"
| "THEMES red = \<lparr>label = ''Festive'', leavesHigh = ''#ef4444'', leavesLow = ''#991b1b'',
     ribbon = ''#fde047'', text_color = ''#450a0a'', bg = ''#2d0a0a'', star = ''#facc15''\<rparr>"
| "THEMES white = \<lparr>label = ''Silver'', leavesHigh = ''#ffffff'', leavesLow = ''#94a3b8'',
     ribbon = ''#dc2626'', text_color = ''#ffffff'', bg = ''#111827'', star = ''#f1f5f9''\<rparr>"
| "THEMES green = \<lparr>label = ''Classic'', leavesHigh = ''#4ade80'', leavesLow = ''#15803d'',
     ribbon = ''#ef4444'', text_color = ''#ffffff'', bg = ''#022c22'', star = ''#fbbf24''\<rparr>"
| "THEMES purple = \<lparr>label = ''Royal'', leavesHigh = ''#d8b4fe'', leavesLow = ''#7e22ce'',
     ribbon = ''#fae8ff'', text_color = ''#3b0764'', bg = ''#1e1b4b'', star = ''#e9d5ff''\<rparr>"
| "THEMES gold = \<lparr>label = ''Luxury'', leavesHigh = ''#fde047'', leavesLow = ''#d97706'',
     ribbon = ''#b91c1c'', text_color = ''#fcd34d'', bg = ''#1c1917'', star = ''#fffbeb''\<rparr>"

text \<open>
  \<open>Color.lerpColors(color1, color2, alpha)\<close> of three.js sets each channel to
  \<open>color1.c + (color2.c - color1.c) * alpha\<close>.
\<close>

definition lerp_channel :: "real \<Rightarrow> real \<Rightarrow> jsnum \<Rightarrow> jsnum" where
  "lerp_channel a b alpha = jadd (Num a) (jmul (Num (b - a)) alpha)"

fun lerpColors :: "color \<Rightarrow> color \<Rightarrow> jsnum \<Rightarrow> vec3" where
  "lerpColors (r1, g1, b1) (r2, g2, b2) alpha =
     (lerp_channel r1 r2 alpha, lerp_channel g1 g2 alpha, lerp_channel b1 b2 alpha)"

definition minY :: real where
  "minY = - 4.0"

definition maxY :: real where
  "maxY = 5.5"

definition range :: real where
  "range = maxY - minY"

definition clamp01 :: "jsnum \<Rightarrow> jsnum" where
  "clamp01 t = jmax (Num 0) (jmin (Num 1) t)"

text \<open>Lines 253--261: the height factor of an instance whose height read is \<open>y\<close>, with
  \<open>u\<close> the value \<open>Math.random()\<close> returns for it.\<close>

definition noise :: "real \<Rightarrow> real" where
  "noise u = (u - 0.5) * 0.05"

definition heightFactor :: "jsnum option \<Rightarrow> real \<Rightarrow> jsnum" where
  "heightFactor y u =
     (let t = jdiv (jsub (to_number y) (Num minY)) (Num range);
          t = clamp01 t
      in clamp01 (jadd t (Num (noise u))))"

text \<open>Lines 263--271: the two-segment gradient at height factor \<open>t\<close>.\<close>

definition localT_low :: "jsnum \<Rightarrow> jsnum" where
  "localT_low t = jdiv t (Num 0.65)"

definition localT_high :: "jsnum \<Rightarrow> jsnum" where
  "localT_high t = jdiv (jsub t (Num 0.65)) (Num 0.35)"

definition gradient :: "color \<Rightarrow> color \<Rightarrow> color \<Rightarrow> jsnum \<Rightarrow> vec3" where
  "gradient cLow cHigh cSnow t =
     (if jless t (Num 0.65) then lerpColors cLow cHigh (localT_low t)
      else lerpColors cHigh cSnow (jmul (localT_high t) (Num 0.7)))"

text \<open>The three colours the effect builds from the theme (lines 243--245).\<close>

definition colorHigh :: "(string \<Rightarrow> color) \<Rightarrow> ThemeKey \<Rightarrow> color" where
  "colorHigh mkColor themeName = mkColor (leavesHigh (THEMES themeName))"

definition colorLow :: "(string \<Rightarrow> color) \<Rightarrow> ThemeKey \<Rightarrow> color" where
  "colorLow mkColor themeName = mkColor (leavesLow (THEMES themeName))"

definition snowColor :: "(string \<Rightarrow> color) \<Rightarrow> color" where
  "snowColor mkColor = mkColor ''#ffffff''"

definition instance_color :: "(string \<Rightarrow> color) \<Rightarrow> ThemeKey \<Rightarrow> jsnum \<Rightarrow> vec3" where
  "instance_color mkColor themeName t =
     gradient (colorLow mkColor themeName) (colorHigh mkColor themeName) (snowColor mkColor) t"

text \<open>
  The loop of the colour effect; \<open>attr\<close> is the instance-colour attribute (one entry
  per instance), written by \<open>setXYZ\<close>.  The effect returns at once when the attribute
  reference is null.
\<close>

definition updateColors_loop :: "(string \<Rightarrow> color) \<Rightarrow> random_source \<Rightarrow> ThemeKey \<Rightarrow>
    layout_state \<Rightarrow> nat \<Rightarrow> vec3 list \<Rightarrow> vec3 list" where
  "updateColors_loop mkColor rnd themeName st N attr =
     fold (\<lambda>i a. a[i := instance_color mkColor themeName
                            (heightFactor (js_get (pos st) (i * 3 + 1)) (rnd i))])
       [0..<N] attr"

definition updateColors :: "(string \<Rightarrow> color) \<Rightarrow> random_source \<Rightarrow> ThemeKey \<Rightarrow>
    layout_state \<Rightarrow> vec3 list option \<Rightarrow> vec3 list option" where
  "updateColors mkColor rnd themeName st colorAttribRef =
     (case colorAttribRef of None \<Rightarrow> None
      | Some attr \<Rightarrow> Some (updateColors_loop mkColor rnd themeName st BRUSH_COUNT attr))"

text \<open>A channel that is a number between 0 and 1.\<close>

fun unit_channel :: "jsnum \<Rightarrow> bool" where
  "unit_channel (Num a) = (0 \<le> a \<and> a \<le> 1)"
| "unit_channel NaN = False"

fun unit_color :: "color \<Rightarrow> bool" where
  "unit_color (r, g, b) = (0 \<le> r \<and> r \<le> 1 \<and> 0 \<le> g \<and> g \<le> 1 \<and> 0 \<le> b \<and> b \<le> 1)"

fun unit_vec3 :: "vec3 \<Rightarrow> bool" where
  "unit_vec3 (r, g, b) = (unit_channel r \<and> unit_channel g \<and> unit_channel b)"

fun as_vec3 :: "color \<Rightarrow> vec3" where
  "as_vec3 (r, g, b) = (Num r, Num g, Num b)"

text \<open>
  A sample \<open>updateMatrix\<close>: the matrix is represented by the three triples it is
  composed from.
\<close>

definition sample_updateMatrix :: "v3u \<Rightarrow> v3u \<Rightarrow> v3u \<Rightarrow> v3u \<times> v3u \<times> v3u" where
  "sample_updateMatrix p r s = (p, r, s)"


section \<open>RibbonWithText: the curve (lines 317--333)\<close>

type_synonym point3 = "real \<times> real \<times> real"

definition turns :: real where
  "turns = 3.5"

definition hStart :: real where
  "hStart = - 3.2"

definition hEnd :: real where
  "hEnd = 5.8"

definition segments :: nat where
  "segments = 200"

definition curve_point :: "nat \<Rightarrow> point3" where
  "curve_point i =
     (let t = real i / real segments;
          angle = t * pi * 2 * turns;
          y = hStart + t * (hEnd - hStart);
          r = 3.7 * (1 - t) + 0.3
      in (cos angle * r, y, sin angle * r))"

definition curve_points :: "point3 list" where
  "curve_points = fold (\<lambda>i points. points @ [curve_point i]) [0..<Suc segments] []"

definition radius_xz :: "point3 \<Rightarrow> real" where
  "radius_xz p = (case p of (x, y, z) \<Rightarrow> sqrt (x\<^sup>2 + z\<^sup>2))"

definition height_of :: "point3 \<Rightarrow> real" where
  "height_of p = (case p of (x, y, z) \<Rightarrow> y)"


section \<open>RibbonWithText: the text layout (lines 351--378)\<close>

text \<open>
  A JavaScript string is a sequence of UTF-16 code units; \<open>length\<close>, \<open>repeat\<close>,
  \<open>substring\<close> and \<open>split('')\<close> all count code units.  The star U+2605 is one unit.
\<close>

type_synonym jsstring = "16 word list"

definition ascii :: "string \<Rightarrow> jsstring" where
  "ascii s = map of_char s"

definition separator :: jsstring where
  "separator = ascii ''   '' @ [0x2605] @ ascii ''   ''"

definition totalCharsNeeded :: nat where
  "totalCharsNeeded = 140"

definition startT :: real where
  "startT = 0.02"

definition endT :: real where
  "endT = 0.98"

definition repeat :: "jsstring \<Rightarrow> nat \<Rightarrow> jsstring" where
  "repeat s k = concat (replicate k s)"

definition repeatedString :: "jsstring \<Rightarrow> jsstring" where
  "repeatedString txt =
     (let baseString = txt @ separator
      in take totalCharsNeeded
           (repeat baseString (nat \<lceil>real totalCharsNeeded / real (length baseString)\<rceil>)))"

record glyph =
  glyph_char :: "16 word"
  glyph_position :: point3
  glyph_rotation :: "real \<times> real \<times> real"

definition glyph_t :: "nat \<Rightarrow> nat \<Rightarrow> real" where
  "glyph_t n i = (let step = (endT - startT) / real n in endT - real i * step)"

definition safeT :: "real \<Rightarrow> real" where
  "safeT t = min 0.999 (max 0.001 t)"

text \<open>
  \<open>getPointAt\<close> is the curve's arc-length sampling and \<open>atan2\<close> is \<open>Math.atan2\<close>; both
  are library code and parameters.
\<close>

definition place_glyph :: "(real \<Rightarrow> point3) \<Rightarrow> (real \<Rightarrow> real \<Rightarrow> real) \<Rightarrow> jsstring \<Rightarrow> nat \<Rightarrow> glyph" where
  "place_glyph getPointAt atan2 chars i =
     (let t = glyph_t (length chars) i;
          point = getPointAt (safeT t);
          angle = (case point of (x, y, z) \<Rightarrow> atan2 x z)
      in \<lparr>glyph_char = chars ! i, glyph_position = point, glyph_rotation = (0, angle, 0)\<rparr>)"

definition textLayout :: "(real \<Rightarrow> point3) \<Rightarrow> (real \<Rightarrow> real \<Rightarrow> real) \<Rightarrow> jsstring \<Rightarrow> glyph list" where
  "textLayout getPointAt atan2 txt =
     (if txt = [] then []
      else let chars = repeatedString txt
           in fold (\<lambda>i layout. layout @ [place_glyph getPointAt atan2 chars i])
                [0..<length chars] [])"

text \<open>Sample library functions for the text layout.\<close>

definition sample_getPointAt :: "real \<Rightarrow> point3" where
  "sample_getPointAt t = (0, t, 1)"

definition sample_atan2 :: "real \<Rightarrow> real \<Rightarrow> real" where
  "sample_atan2 y x = 0"


section \<open>FallingSnow (lines 128--164)\<close>

definition snow_count :: nat where
  "snow_count = 800"

record particle =
  position :: point3
  speed :: real
  wobbleSpeed :: real
  wobbleOffset :: real
  scale :: real

text \<open>Particle \<open>j\<close> is built from seven consecutive values of \<open>Math.random()\<close>.\<close>

definition new_particle :: "random_source \<Rightarrow> nat \<Rightarrow> particle" where
  "new_particle rnd j =
     \<lparr>position = ((rnd (7 * j) - 0.5) * 25, rnd (7 * j + 1) * 20, (rnd (7 * j + 2) - 0.5) * 25),
      speed = 0.03 + rnd (7 * j + 3) * 0.05,
      wobbleSpeed = 0.5 + rnd (7 * j + 4),
      wobbleOffset = rnd (7 * j + 5) * pi * 2,
      scale = 0.04 + rnd (7 * j + 6) * 0.06\<rparr>"

definition particles :: "random_source \<Rightarrow> particle list" where
  "particles rnd = map (new_particle rnd) [0..<snow_count]"

definition py :: "particle \<Rightarrow> real" where
  "py p = (case position p of (x, y, z) \<Rightarrow> y)"

text \<open>Lines 152--153: the fall and the recycling of one particle.\<close>

definition fall :: "particle \<Rightarrow> particle" where
  "fall p =
     (case position p of (x, y, z) \<Rightarrow>
        (let y1 = y - speed p;
             y2 = (if y1 < - 5 then 15 else y1)
         in p\<lparr>position := (x, y2, z)\<rparr>))"

text \<open>Lines 155--160: what is stored in \<open>dummy\<close> for a particle (position with the
  wobble added to \<open>x\<close>, uniform scale, rotation).\<close>

record transform =
  t_position :: point3
  t_scale :: real
  t_rotation :: point3

definition snow_transform :: "real \<Rightarrow> particle \<Rightarrow> transform" where
  "snow_transform time p =
     (let wobble = sin (time * wobbleSpeed p + wobbleOffset p) * 0.05
      in case position p of (x, y, z) \<Rightarrow>
           \<lparr>t_position = (x + wobble, y, z), t_scale = scale p,
            t_rotation = (time * 0.5, time * 0.3, 0)\<rparr>)"

text \<open>
  One frame.  The state is the particle array and the mesh's instance buffer (\<open>None\<close>
  when the mesh reference is null, in which case the frame does nothing).
\<close>

definition snow_frame :: "real \<Rightarrow> particle list \<times> transform list option \<Rightarrow>
    particle list \<times> transform list option" where
  "snow_frame time s =
     (case s of (ps, mesh) \<Rightarrow>
        (case mesh of None \<Rightarrow> (ps, None)
         | Some buf \<Rightarrow>
             (let ps' = map fall ps
              in (ps', Some (fold (\<lambda>i b. b[i := snow_transform time (ps' ! i)])
                               [0..<length ps'] buf)))))"

text \<open>A run of frames at the given clock times, in order.\<close>

definition snow_frames :: "real list \<Rightarrow> particle list \<times> transform list option \<Rightarrow>
    particle list \<times> transform list option" where
  "snow_frames clock s = fold snow_frame clock s"

text \<open>The entries of a freshly allocated instance buffer.\<close>

definition zero_transform :: transform where
  "zero_transform = \<lparr>t_position = (0, 0, 0), t_scale = 0, t_rotation = (0, 0, 0)\<rparr>"


section \<open>BackgroundController (lines 105--118)\<close>

text \<open>\<open>Color.lerp(color, alpha)\<close> of three.js adds \<open>(color.c - this.c) * alpha\<close> to each
  channel.\<close>

fun lerp :: "color \<Rightarrow> color \<Rightarrow> real \<Rightarrow> color" where
  "lerp (r, g, b) (tr, tg, tb) alpha =
     (r + (tr - r) * alpha, g + (tg - g) * alpha, b + (tb - b) * alpha)"

record scene =
  background :: "color option"
  fog :: "color option"

record bg_state =
  currentColor :: color
  the_scene :: scene

definition background_frame :: "color \<Rightarrow> real \<Rightarrow> bg_state \<Rightarrow> bg_state" where
  "background_frame targetColor delta s =
     (let d = min delta 0.1;
          c = lerp (currentColor s) targetColor (d * 2)
      in \<lparr>currentColor = c,
          the_scene = \<lparr>background = Some c,
                       fog = (case fog (the_scene s) of None \<Rightarrow> None | Some f \<Rightarrow> Some c)\<rparr>\<rparr>)"

text \<open>A point of the segment from \<open>a\<close> to \<open>b\<close>.\<close>

definition on_segment :: "color \<Rightarrow> color \<Rightarrow> color \<Rightarrow> bool" where
  "on_segment a b c = (\<exists>k. 0 \<le> k \<and> k \<le> 1 \<and> c = lerp a b k)"


section \<open>Properties of the instance layout\<close>

lemma brush_index: "index (brush rnd lookAt yb rb st) = index st + 1"
  by (simp add: brush_def Let_def split: prod.splits)

lemma brush_lengths:
  "length (pos (brush rnd lookAt yb rb st)) = length (pos st) + 3"
  "length (rot (brush rnd lookAt yb rb st)) = length (rot st) + 3"
  "length (sca (brush rnd lookAt yb rb st)) = length (sca st) + 3"
  by (simp_all add: brush_def Let_def split: prod.splits)

lemma layer_loop_lengths:
  "index st + n \<le> N \<Longrightarrow>
   index (layer_loop rnd lookAt N yb rb n st) = index st + n \<and>
   length (pos (layer_loop rnd lookAt N yb rb n st)) = length (pos st) + 3 * n \<and>
   length (rot (layer_loop rnd lookAt N yb rb n st)) = length (rot st) + 3 * n \<and>
   length (sca (layer_loop rnd lookAt N yb rb n st)) = length (sca st) + 3 * n"
proof (induction n arbitrary: st)
  case 0
  then show ?case by simp
next
  case (Suc n)
  have "index (brush rnd lookAt yb rb st) + n \<le> N"
    using Suc.prems by (simp add: brush_index)
  from Suc.IH [OF this] Suc.prems show ?case
    by (simp add: brush_index brush_lengths)
qed

lemma layer_step_lengths:
  "index st + N div L \<le> N \<Longrightarrow>
   index (layer_step rnd lookAt N L l st) = index st + N div L \<and>
   length (pos (layer_step rnd lookAt N L l st)) = length (pos st) + 3 * (N div L) \<and>
   length (rot (layer_step rnd lookAt N L l st)) = length (rot st) + 3 * (N div L) \<and>
   length (sca (layer_step rnd lookAt N L l st)) = length (sca st) + 3 * (N div L)"
  unfolding layer_step_def Let_def by (rule layer_loop_lengths)

lemma layers_bound: "l < L \<Longrightarrow> l * (N div L) + N div L \<le> (N::nat)"
proof -
  assume "l < L"
  then have "Suc l * (N div L) \<le> L * (N div L)"
    by (intro mult_le_mono1) simp
  also have "\<dots> \<le> N" by simp
  finally show ?thesis by simp
qed

lemma layers_lengths:
  "l \<le> L \<Longrightarrow>
   index (fold (layer_step rnd lookAt N L) [0..<l] layout_init) = l * (N div L) \<and>
   length (pos (fold (layer_step rnd lookAt N L) [0..<l] layout_init)) = 3 * (l * (N div L)) \<and>
   length (rot (fold (layer_step rnd lookAt N L) [0..<l] layout_init)) = 3 * (l * (N div L)) \<and>
   length (sca (fold (layer_step rnd lookAt N L) [0..<l] layout_init)) = 3 * (l * (N div L))"
proof (induction l)
  case 0
  then show ?case by (simp add: layout_init_def)
next
  case (Suc l)
  define st where "st = fold (layer_step rnd lookAt N L) [0..<l] layout_init"
  have ih: "index st = l * (N div L)" "length (pos st) = 3 * (l * (N div L))"
    "length (rot st) = 3 * (l * (N div L))" "length (sca st) = 3 * (l * (N div L))"
    using Suc by (simp_all add: st_def)
  have "index st + N div L \<le> N"
    using layers_bound [of l L N] Suc.prems by (simp add: ih)
  from layer_step_lengths [OF this, of rnd lookAt l]
  have "index (layer_step rnd lookAt N L l st) = Suc l * (N div L) \<and>
    length (pos (layer_step rnd lookAt N L l st)) = 3 * (Suc l * (N div L)) \<and>
    length (rot (layer_step rnd lookAt N L l st)) = 3 * (Suc l * (N div L)) \<and>
    length (sca (layer_step rnd lookAt N L l st)) = 3 * (Suc l * (N div L))"
    by (simp add: ih algebra_simps)
  then show ?case by (simp add: st_def)
qed

lemma layout_lengths:
  "index (layout rnd lookAt N L) = (N div L) * L"
  "length (pos (layout rnd lookAt N L)) = 3 * ((N div L) * L)"
  "length (rot (layout rnd lookAt N L)) = 3 * ((N div L) * L)"
  "length (sca (layout rnd lookAt N L)) = 3 * ((N div L) * L)"
  using layers_lengths [of L L rnd lookAt N] by (simp_all add: layout_def mult.commute)

lemma layerProgress_Num:
  "L \<noteq> 1 \<Longrightarrow> layerProgress L l = Num (real l / (real L - 1))"
  by (simp add: layerProgress_def)

lemma taper_pos: "p \<le> 1 \<Longrightarrow> 0 < 3.8 * (1 - p * 0.95)" for p :: real
  by simp

lemma radiusBase_Num:
  "layerProgress L l = Num p \<Longrightarrow> radiusBase L l = Num (3.8 * (1 - p * 0.95))"
  by (simp add: radiusBase_def)

lemma radiusBase_pos:
  assumes "2 \<le> L" "l < L"
  shows "\<exists>b. radiusBase L l = Num b \<and> 0 < b"
proof -
  define p where "p = real l / (real L - 1)"
  have L: "L \<noteq> 1" using assms by simp
  have "real l \<le> real L - 1" using assms by simp
  moreover have "0 < real L - 1" using assms by simp
  ultimately have "p \<le> 1" by (simp add: p_def divide_le_eq)
  then have pos: "0 < 3.8 * (1 - p * 0.95)" by (rule taper_pos)
  have "layerProgress L l = Num p"
    unfolding p_def by (rule layerProgress_Num [OF L])
  then have "radiusBase L l = Num (3.8 * (1 - p * 0.95))" by (rule radiusBase_Num)
  with pos show ?thesis by blast
qed

lemma radiusBase_one: "radiusBase 1 l = NaN"
  by (simp add: radiusBase_def layerProgress_def)

lemma brush_pos:
  assumes "b \<noteq> 0"
  shows "pos (brush rnd lookAt yb (Num b) st) = pos st @
     [Num (cos (rnd (calls st + 1) * pi * 2) * (sqrt (rnd (calls st)) * b)),
      Num (yb + rnd (calls st + 2) * (1 - sqrt (rnd (calls st)) * 0.3)),
      Num (sin (rnd (calls st + 1) * pi * 2) * (sqrt (rnd (calls st)) * b))]"
  using assms by (simp add: brush_def Let_def split: prod.splits)

lemma disk_bound:
  assumes "0 \<le> u" "u < 1" "0 < b"
  shows "(cos a * (sqrt u * b))\<^sup>2 + (sin a * (sqrt u * b))\<^sup>2 \<le> b\<^sup>2"
proof -
  have "(cos a * (sqrt u * b))\<^sup>2 + (sin a * (sqrt u * b))\<^sup>2
      = ((cos a)\<^sup>2 + (sin a)\<^sup>2) * ((sqrt u)\<^sup>2 * b\<^sup>2)"
    by (simp only: power_mult_distrib distrib_right)
  also have "\<dots> = u * b\<^sup>2" using assms by simp
  also have "\<dots> \<le> 1 * b\<^sup>2" using assms by (intro mult_right_mono) simp_all
  finally show ?thesis by simp
qed

lemma get3_append:
  "3 * k + 2 < length xs \<Longrightarrow> get3 (xs @ ys) k = get3 xs k"
  by (simp add: get3_def js_get_def nth_append mult.commute)

lemma get3_last:
  "length xs = 3 * k \<Longrightarrow> get3 (xs @ [a, b, c]) k = (Some a, Some b, Some c)"
  by (simp add: get3_def js_get_def nth_append mult.commute)

lemma within_radius_append:
  "3 * k + 2 < length xs \<Longrightarrow> within_radius L l (xs @ ys) k = within_radius L l xs k"
  by (simp only: within_radius_def get3_append)

lemma brush_good:
  assumes rb: "radiusBase L l = Num b" "0 < b"
    and u: "uniform01 rnd"
    and g: "good L c st"
    and l: "index st div c = l"
  shows "good L c (brush rnd lookAt yb (Num b) st)"
proof -
  define X where "X = cos (rnd (calls st + 1) * pi * 2) * (sqrt (rnd (calls st)) * b)"
  define Z where "Z = sin (rnd (calls st + 1) * pi * 2) * (sqrt (rnd (calls st)) * b)"
  define Y where "Y = yb + rnd (calls st + 2) * (1 - sqrt (rnd (calls st)) * 0.3)"
  have p: "pos (brush rnd lookAt yb (Num b) st) = pos st @ [Num X, Num Y, Num Z]"
    using brush_pos [of b rnd lookAt yb st] rb by (simp add: X_def Y_def Z_def)
  have len: "length (pos st) = 3 * index st" using g by (simp add: good_def)
  have "X\<^sup>2 + Z\<^sup>2 \<le> b\<^sup>2"
    unfolding X_def Z_def using u rb by (intro disk_bound) (simp_all add: uniform01_def)
  then have "sqrt (X\<^sup>2 + Z\<^sup>2) \<le> b"
    using rb by (intro real_le_lsqrt) simp_all
  then have new: "within_radius L l (pos st @ [Num X, Num Y, Num Z]) (index st)"
    by (simp add: within_radius_def get3_last [OF len] rb)
  have old: "within_radius L (k div c) (pos st @ [Num X, Num Y, Num Z]) k" if "k < index st" for k
  proof -
    have "3 * k + 2 < length (pos st)" using that len by simp
    then show ?thesis using g that by (simp add: within_radius_append good_def)
  qed
  have "within_radius L (k div c) (pos st @ [Num X, Num Y, Num Z]) k"
    if "k < index st + 1" for k
  proof (cases "k = index st")
    case True
    then show ?thesis using new l by simp
  next
    case False
    then show ?thesis using old that by simp
  qed
  then show ?thesis
    by (simp add: good_def p brush_index len)
qed

lemma div_in_block:
  fixes c :: nat
  assumes "l * c \<le> i" "i < (l + 1) * c"
  shows "i div c = l"
proof -
  have "0 < c" using assms by (cases c) simp_all
  then show ?thesis using assms
    by (metis Suc_eq_plus1 div_nat_eqI mult.commute)
qed

lemma layer_loop_good:
  assumes rb: "radiusBase L l = Num b" "0 < b" and u: "uniform01 rnd"
  shows "good L c st \<Longrightarrow> l * c \<le> index st \<Longrightarrow> index st + n \<le> (l + 1) * c \<Longrightarrow>
    (l + 1) * c \<le> N \<Longrightarrow> good L c (layer_loop rnd lookAt N yb (Num b) n st)"
proof (induction n arbitrary: st)
  case 0
  then show ?case by simp
next
  case (Suc n)
  have lt: "index st < (l + 1) * c" using Suc.prems by simp
  have "index st div c = l" using Suc.prems(2) lt by (rule div_in_block)
  then have g: "good L c (brush rnd lookAt yb (Num b) st)"
    using rb u Suc.prems(1) by (intro brush_good)
  have "good L c (layer_loop rnd lookAt N yb (Num b) n (brush rnd lookAt yb (Num b) st))"
    using Suc.prems by (intro Suc.IH g) (simp_all add: brush_index)
  moreover have "\<not> N \<le> index st" using lt Suc.prems(4) by simp
  ultimately show ?case by simp
qed

lemma layers_good:
  assumes L: "2 \<le> L" and u: "uniform01 rnd"
  shows "l \<le> L \<Longrightarrow> good L (N div L) (fold (layer_step rnd lookAt N L) [0..<l] layout_init)"
proof (induction l)
  case 0
  then show ?case by (simp add: good_def layout_init_def)
next
  case (Suc l)
  define st where "st = fold (layer_step rnd lookAt N L) [0..<l] layout_init"
  have g: "good L (N div L) st" using Suc by (simp add: st_def)
  have i: "index st = l * (N div L)"
    using layers_lengths [of l L rnd lookAt N] Suc.prems by (simp add: st_def)
  obtain b where b: "radiusBase L l = Num b" "0 < b"
    using radiusBase_pos [of L l] L Suc.prems by auto
  have bound: "(l + 1) * (N div L) \<le> N"
    using layers_bound [of l L N] Suc.prems by simp
  have "good L (N div L) (layer_loop rnd lookAt N (yBase l) (Num b) (N div L) st)"
    using b u g bound by (intro layer_loop_good [where l = l]) (simp_all add: i)
  moreover have "layer_step rnd lookAt N L l st =
      layer_loop rnd lookAt N (yBase l) (Num b) (N div L) st"
    by (simp add: layer_step_def b)
  ultimately have "good L (N div L) (layer_step rnd lookAt N L l st)" by simp
  then show ?case by (simp add: st_def)
qed

lemma layout_within_radius:
  assumes "2 \<le> L" "uniform01 rnd" "k < (N div L) * L"
  shows "within_radius L (k div (N div L)) (pos (layout rnd lookAt N L)) k"
  using layers_good [OF assms(1,2), of L N lookAt] assms(3)
  by (simp add: good_def layout_def layout_lengths [unfolded layout_def])

text \<open>
  C1, as amended.  The layout is a total function: it has no failing path.  For every
  instance count \<open>N\<close> and layer count \<open>L\<close> its three arrays hold exactly
  \<open>N - N mod L\<close> instances each (none for \<open>L = 0\<close>): the remainder \<open>N mod L\<close> is dropped,
  so the output has \<open>N\<close> instances only when \<open>L\<close> divides \<open>N\<close>.
\<close>

theorem layout_drops_remainder:
  "instances (pos (layout rnd lookAt N L)) = (if L = 0 then 0 else N - N mod L) \<and>
   instances (rot (layout rnd lookAt N L)) = (if L = 0 then 0 else N - N mod L) \<and>
   instances (sca (layout rnd lookAt N L)) = (if L = 0 then 0 else N - N mod L) \<and>
   index (layout rnd lookAt N L) = (if L = 0 then 0 else N - N mod L)"
  by (simp add: instances_def layout_lengths minus_mod_eq_div_mult)

text \<open>
  C1 as stated fails: with the constants of the source (1100 instances, 9 layers) the
  layout holds 1098 instances, not 1100.
\<close>

theorem layout_exactly_N_counterexample:
  "instances (pos (tree_layout (const_source 0) sample_lookAt)) = 1098 \<and> BRUSH_COUNT = 1100"
  by (simp add: instances_def tree_layout_def layout_lengths BRUSH_COUNT_def LAYER_COUNT_def)

text \<open>
  C2, as amended.  For every random source with values in \<open>[0, 1)\<close>, every \<open>N\<close> and
  every \<open>L\<close>: the layout holds exactly \<open>floor(N / L) * L\<close> instances (none for \<open>L = 0\<close>);
  unless \<open>L = 1\<close>, instance \<open>k\<close>, which belongs to layer \<open>k div floor(N / L)\<close>, lies at a
  horizontal radius of at most that layer's \<open>radiusBase\<close>; and \<open>yBase\<close> is strictly
  increasing in the layer index.
\<close>

theorem layout_count_radius_yBase:
  assumes "uniform01 rnd"
  shows "instances (pos (layout rnd lookAt N L)) = (if L = 0 then 0 else (N div L) * L) \<and>
    (L \<noteq> 1 \<longrightarrow> (\<forall>k < (N div L) * L.
        within_radius L (k div (N div L)) (pos (layout rnd lookAt N L)) k)) \<and>
    (\<forall>l l'. l < l' \<longrightarrow> yBase l < yBase l')"
proof (intro conjI impI allI)
  show "instances (pos (layout rnd lookAt N L)) = (if L = 0 then 0 else (N div L) * L)"
    by (simp add: instances_def layout_lengths)
next
  fix k
  assume L: "L \<noteq> 1" and k: "k < (N div L) * L"
  from k have "L \<noteq> 0" by (cases "L = 0") simp_all
  with L have "2 \<le> L" by simp
  then show "within_radius L (k div (N div L)) (pos (layout rnd lookAt N L)) k"
    using assms k by (rule layout_within_radius)
next
  fix l l' :: nat
  assume "l < l'"
  then show "yBase l < yBase l'" by (simp add: yBase_def)
qed

theorem layout_count_radius_yBase_witness:
  "uniform01 (const_source 0) \<and>
   instances (pos (layout (const_source 0) sample_lookAt 1100 9)) = 1098 \<and>
   within_radius 9 8 (pos (layout (const_source 0) sample_lookAt 1100 9)) 1097 \<and>
   yBase 0 < yBase 1"
proof -
  have u: "uniform01 (const_source 0)"
    by (simp add: uniform01_def const_source_def)
  from layout_count_radius_yBase [OF u, of sample_lookAt 1100 9]
  have "instances (pos (layout (const_source 0) sample_lookAt 1100 9)) = 1098"
    and r: "\<forall>k<1098. within_radius 9 (k div 122) (pos (layout (const_source 0) sample_lookAt 1100 9)) k"
    and y: "\<forall>l l'. l < l' \<longrightarrow> yBase l < yBase l'"
    by simp_all
  moreover from r [rule_format, of 1097]
  have "within_radius 9 8 (pos (layout (const_source 0) sample_lookAt 1100 9)) 1097"
    by simp
  moreover from y have "yBase 0 < yBase 1" by simp
  ultimately show ?thesis using u by simp
qed

text \<open>
  C2 as stated fails for a single layer: \<open>layerProgress\<close> is then \<open>0 / 0\<close>, so the
  layer's radius and every coordinate that depends on it are \<open>NaN\<close>, and no instance
  is within the radius.
\<close>

theorem layout_single_layer_counterexample:
  "instances (pos (layout (const_source 0) sample_lookAt 1 1)) = 1 \<and>
   radiusBase 1 0 = NaN \<and>
   get3 (pos (layout (const_source 0) sample_lookAt 1 1)) 0 = (Some NaN, Some NaN, Some NaN) \<and>
   \<not> within_radius 1 0 (pos (layout (const_source 0) sample_lookAt 1 1)) 0"
proof -
  have r: "radiusBase 1 0 = NaN" by (rule radiusBase_one)
  have r': "radiusBase (Suc 0) 0 = NaN" using r by simp
  have p: "pos (layout (const_source 0) sample_lookAt 1 1) = [NaN, NaN, NaN]"
    by (simp add: layout_def layer_step_def layout_init_def brush_def Let_def r'
        split: prod.splits)
  have w: "\<not> within_radius 1 0 (pos (layout (const_source 0) sample_lookAt 1 1)) 0"
    unfolding within_radius_def using r by simp
  have i: "instances (pos (layout (const_source 0) sample_lookAt 1 1)) = 1"
    unfolding p by (simp add: instances_def)
  have g: "get3 (pos (layout (const_source 0) sample_lookAt 1 1)) 0 =
      (Some NaN, Some NaN, Some NaN)"
    unfolding p by (simp add: get3_def js_get_def)
  from i r g w show ?thesis by blast
qed


section \<open>Properties of the two effects\<close>

lemma fold_update_length:
  "length (fold (\<lambda>i b. b[i := f i]) xs buf) = length buf"
  by (induction xs arbitrary: buf) simp_all

lemma fold_update_nth:
  "n \<le> length buf \<Longrightarrow> i < n \<Longrightarrow> fold (\<lambda>i b. b[i := f i]) [0..<n] buf ! i = f i"
proof (induction n)
  case 0
  then show ?case by simp
next
  case (Suc n)
  show ?case
  proof (cases "i = n")
    case True
    then show ?thesis using Suc.prems by (simp add: fold_update_length)
  next
    case False
    then have "i < n" using Suc.prems by simp
    then show ?thesis using Suc by (simp add: fold_update_length)
  qed
qed

lemma clamp01_NaN: "clamp01 NaN = NaN"
  by (simp add: clamp01_def)

lemma clamp01_Num: "clamp01 (Num a) = Num (max 0 (min 1 a))"
  by (simp add: clamp01_def)

lemma heightFactor_undefined: "heightFactor None u = NaN"
  by (simp add: heightFactor_def clamp01_NaN)

lemma range_eq: "range = 9.5"
  by (simp add: range_def maxY_def minY_def)

lemma heightFactor_Num:
  "heightFactor (Some (Num v)) u =
     Num (max 0 (min 1 (max 0 (min 1 ((v - minY) / range)) + noise u)))"
  by (simp add: heightFactor_def Let_def clamp01_Num range_eq)

lemma noise_bound: "0 \<le> u \<Longrightarrow> u < 1 \<Longrightarrow> \<bar>noise u\<bar> \<le> 0.025"
  unfolding noise_def abs_le_iff by simp

lemma lerp_channel_Num: "lerp_channel a b (Num k) = Num (a + (b - a) * k)"
  by (simp add: lerp_channel_def)

lemma lerp_channel_NaN: "lerp_channel a b NaN = NaN"
  by (simp add: lerp_channel_def)

lemma lerpColors_Num: "lerpColors c1 c2 (Num k) = as_vec3 (lerp c1 c2 k)"
  by (cases c1; cases c2) (simp add: lerp_channel_Num)

lemma lerpColors_NaN: "lerpColors c1 c2 NaN = (NaN, NaN, NaN)"
  by (cases c1; cases c2) (simp add: lerp_channel_NaN)

lemma gradient_NaN: "gradient cLow cHigh cSnow NaN = (NaN, NaN, NaN)"
  by (simp add: gradient_def localT_high_def lerpColors_NaN)

lemma gradient_Num:
  "gradient cLow cHigh cSnow (Num t) =
     (if t < 0.65 then as_vec3 (lerp cLow cHigh (t / 0.65))
      else as_vec3 (lerp cHigh cSnow ((t - 0.65) / 0.35 * 0.7)))"
  by (simp add: gradient_def localT_low_def localT_high_def lerpColors_Num)

lemma mix_unit:
  fixes a b k :: real
  assumes "0 \<le> a" "a \<le> 1" "0 \<le> b" "b \<le> 1" "0 \<le> k" "k \<le> 1"
  shows "0 \<le> a + (b - a) * k \<and> a + (b - a) * k \<le> 1"
proof -
  have eq: "a + (b - a) * k = (1 - k) * a + k * b" by (simp add: algebra_simps)
  have "0 \<le> (1 - k) * a" "0 \<le> k * b" using assms by simp_all
  moreover have "(1 - k) * a \<le> (1 - k) * 1" "k * b \<le> k * 1"
    using assms by (intro mult_left_mono; simp)+
  ultimately show ?thesis unfolding eq by (simp add: algebra_simps)
qed

lemma lerp_unit:
  assumes "unit_color c1" "unit_color c2" "0 \<le> k" "k \<le> 1"
  shows "unit_vec3 (as_vec3 (lerp c1 c2 k))"
  using assms by (cases c1; cases c2) (simp add: mix_unit)

lemma gradient_unit:
  assumes "unit_color cLow" "unit_color cHigh" "unit_color cSnow" "0 \<le> t" "t \<le> 1"
  shows "unit_vec3 (gradient cLow cHigh cSnow (Num t))"
proof (cases "t < 0.65")
  case True
  then have "0 \<le> t / 0.65" "t / 0.65 \<le> 1" using assms by simp_all
  then show ?thesis using True assms by (simp add: gradient_Num lerp_unit)
next
  case False
  then have "0 \<le> (t - 0.65) / 0.35 * 0.7" "(t - 0.65) / 0.35 * 0.7 \<le> 1" using assms by simp_all
  then show ?thesis using False assms by (simp add: gradient_Num lerp_unit del: times_divide_eq_left)
qed

lemma lerp_eq_target:
  fixes a b k :: real
  assumes "k \<noteq> 1"
  shows "a + (b - a) * k = b \<longleftrightarrow> a = b"
proof -
  have "a + (b - a) * k - b = (a - b) * (1 - k)" by (simp add: algebra_simps)
  then have "a + (b - a) * k = b \<longleftrightarrow> (a - b) * (1 - k) = 0"
    by (metis eq_iff_diff_eq_0)
  then show ?thesis using assms by simp
qed

lemma lerp_reaches_target:
  assumes "k \<noteq> 1"
  shows "lerp c1 c2 k = c2 \<longleftrightarrow> c1 = c2"
  using assms by (cases c1; cases c2) (simp add: lerp_eq_target)

lemma as_vec3_inj: "as_vec3 c = as_vec3 d \<longleftrightarrow> c = d"
  by (cases c; cases d) simp

text \<open>
  C3, as amended.  For every height factor \<open>t\<close> in \<open>[0, 1]\<close>, every theme and every colour
  constructor, the colour assigned is the linear interpolation from the low to the high
  colour at \<open>t / 0.65\<close> when \<open>t < 0.65\<close>, and otherwise the linear interpolation from
  the high colour to white at \<open>(t - 0.65) / 0.35 * 0.7\<close>; that fraction never exceeds
  \<open>0.7\<close>, so a tip (\<open>t \<ge> 0.65\<close>) is never pure white, provided the theme's high colour is
  not itself white.
\<close>

theorem gradient_two_segments:
  assumes "0 \<le> t" "t \<le> 1"
  shows "instance_color mkColor th (Num t) =
      (if t < 0.65
       then as_vec3 (lerp (colorLow mkColor th) (colorHigh mkColor th) (t / 0.65))
       else as_vec3 (lerp (colorHigh mkColor th) (snowColor mkColor) ((t - 0.65) / 0.35 * 0.7))) \<and>
    (t - 0.65) / 0.35 * 0.7 \<le> 0.7 \<and>
    (0.65 \<le> t \<and> colorHigh mkColor th \<noteq> snowColor mkColor \<longrightarrow>
       instance_color mkColor th (Num t) \<noteq> as_vec3 (snowColor mkColor))"
proof (intro conjI impI)
  show "instance_color mkColor th (Num t) =
      (if t < 0.65
       then as_vec3 (lerp (colorLow mkColor th) (colorHigh mkColor th) (t / 0.65))
       else as_vec3 (lerp (colorHigh mkColor th) (snowColor mkColor) ((t - 0.65) / 0.35 * 0.7)))"
    unfolding instance_color_def by (rule gradient_Num)
next
  show f: "(t - 0.65) / 0.35 * 0.7 \<le> 0.7" using assms by simp
next
  assume a: "0.65 \<le> t \<and> colorHigh mkColor th \<noteq> snowColor mkColor"
  have "(t - 0.65) / 0.35 * 0.7 \<le> 0.7" using assms by simp
  then have k: "(t - 0.65) / 0.35 * 0.7 \<noteq> 1" by linarith
  have "instance_color mkColor th (Num t) =
     as_vec3 (lerp (colorHigh mkColor th) (snowColor mkColor) ((t - 0.65) / 0.35 * 0.7))"
    using a unfolding instance_color_def gradient_Num by simp
  then show "instance_color mkColor th (Num t) \<noteq> as_vec3 (snowColor mkColor)"
    using a lerp_reaches_target [OF k] by (simp only: as_vec3_inj) simp
qed

text \<open>
  The theorem at the very top (\<open>t = 1\<close>) of the green theme.
\<close>

theorem gradient_two_segments_witness:
  "(0::real) \<le> 1 \<and> (0.65::real) \<le> 1 \<and> colorHigh hex_color green \<noteq> snowColor hex_color \<and>
   instance_color hex_color green (Num 1) =
     as_vec3 (lerp (colorHigh hex_color green) (snowColor hex_color) 0.7) \<and>
   instance_color hex_color green (Num 1) \<noteq> as_vec3 (snowColor hex_color)"
proof -
  have ne: "colorHigh hex_color green \<noteq> snowColor hex_color"
    by (simp add: colorHigh_def snowColor_def hex_byte_def hex_digit_def)
  have th: "instance_color hex_color green (Num 1) =
      as_vec3 (lerp (colorHigh hex_color green) (snowColor hex_color) 0.7) \<and>
    (colorHigh hex_color green \<noteq> snowColor hex_color \<longrightarrow>
      instance_color hex_color green (Num 1) \<noteq> as_vec3 (snowColor hex_color))"
    using gradient_two_segments [of 1 hex_color green] by auto
  have "(0::real) \<le> 1 \<and> (0.65::real) \<le> 1" by simp
  with ne th show ?thesis by blast
qed

text \<open>
  C3 as stated fails for the theme \<open>white\<close>, whose \<open>leavesHigh\<close> is \<open>#ffffff\<close>: there
  the tip is pure white.
\<close>

theorem white_theme_tip_counterexample:
  "instance_color hex_color white (Num 1) = (Num 1, Num 1, Num 1) \<and>
   as_vec3 (snowColor hex_color) = (Num 1, Num 1, Num 1)"
  by (simp add: instance_color_def gradient_Num colorHigh_def snowColor_def hex_byte_def hex_digit_def)

lemma tree_layout_lengths:
  "length (pos (tree_layout rnd lookAt)) = 3294"
  "length (rot (tree_layout rnd lookAt)) = 3294"
  "length (sca (tree_layout rnd lookAt)) = 3294"
  by (simp_all add: tree_layout_def layout_lengths BRUSH_COUNT_def LAYER_COUNT_def)

lemma get3_beyond: "length xs \<le> i * 3 \<Longrightarrow> get3 xs i = (None, None, None)"
  by (simp add: get3_def js_get_def)

lemma instance_color_NaN: "instance_color mkColor th NaN = (NaN, NaN, NaN)"
  by (simp add: instance_color_def gradient_NaN)

lemma updateColors_loop_nth:
  "length attr = N \<Longrightarrow> i < N \<Longrightarrow>
   updateColors_loop mkColor rnd th st N attr ! i =
     instance_color mkColor th (heightFactor (js_get (pos st) (i * 3 + 1)) (rnd i))"
  unfolding updateColors_loop_def by (rule fold_update_nth) simp_all

lemma color_beyond_layout:
  assumes "length attr = N" "i < N" "length (pos st) \<le> i * 3 + 1"
  shows "updateColors_loop mkColor rnd th st N attr ! i = (NaN, NaN, NaN)"
  using assms
  by (simp add: updateColors_loop_nth js_get_def heightFactor_undefined instance_color_NaN)

text \<open>
  For an instance whose height is a number, the height factor is clamped into
  \<open>[0, 1]\<close> before and after the noise, the noise is at most 0.025 in magnitude, and
  every channel of the colour lies within \<open>[0, 1]\<close>.
\<close>

lemma heightFactor_unit:
  "\<exists>t. heightFactor (Some (Num v)) u = Num t \<and> 0 \<le> t \<and> t \<le> 1"
  by (simp add: heightFactor_Num)

lemma defined_height_color_unit:
  assumes "unit_color (colorLow mkColor th)" "unit_color (colorHigh mkColor th)"
    "unit_color (snowColor mkColor)"
  shows "unit_vec3 (instance_color mkColor th (heightFactor (Some (Num v)) u))"
proof -
  obtain t where t: "heightFactor (Some (Num v)) u = Num t" "0 \<le> t" "t \<le> 1"
    using heightFactor_unit by blast
  show ?thesis
    unfolding instance_color_def t(1) using assms t(2,3) by (rule gradient_unit)
qed

text \<open>
  C9 at the instance with index 1098.  The layout holds 1098 instances, so the read
  \<open>positions[1098 * 3 + 1]\<close> is past the end: the height factor is \<open>NaN\<close>, both clamps
  leave it \<open>NaN\<close>, and all three colour channels written for the instance are \<open>NaN\<close>,
  not numbers within \<open>[0, 1]\<close>.
\<close>

theorem missing_instance_color:
  "updateColors_loop hex_color (const_source 0) green (tree_layout (const_source 0) sample_lookAt)
     BRUSH_COUNT (replicate BRUSH_COUNT (Num 0, Num 0, Num 0)) ! 1098 = (NaN, NaN, NaN) \<and>
   heightFactor (js_get (pos (tree_layout (const_source 0) sample_lookAt)) (1098 * 3 + 1))
     (const_source 0 1098) = NaN"
proof -
  have "updateColors_loop hex_color (const_source 0) green (tree_layout (const_source 0) sample_lookAt)
     BRUSH_COUNT (replicate BRUSH_COUNT (Num 0, Num 0, Num 0)) ! 1098 = (NaN, NaN, NaN)"
    by (rule color_beyond_layout) (simp_all add: BRUSH_COUNT_def tree_layout_lengths)
  moreover have "heightFactor (js_get (pos (tree_layout (const_source 0) sample_lookAt)) (1098 * 3 + 1))
     (const_source 0 1098) = NaN"
    by (simp add: js_get_def tree_layout_lengths heightFactor_undefined)
  ultimately show ?thesis by simp
qed

lemma fold_upt_Suc: "fold f [0..<Suc n] s = f n (fold f [0..<n] s)"
  by simp

lemma initGeometry_fold_dummy:
  "fst (fold (initGeometry_step um st) xs (d, buf)) = fold (set_dummy st) xs d"
  by (induction xs arbitrary: d buf) (simp_all add: initGeometry_step_def Let_def)

lemma initGeometry_fold_length:
  "length (snd (fold (initGeometry_step um st) xs (d, buf))) = length buf"
  by (induction xs arbitrary: d buf) (simp_all add: initGeometry_step_def Let_def)

lemma initGeometry_step_snd:
  "snd (initGeometry_step um st i s) =
     (snd s)[i := um (obj_position (set_dummy st i (fst s)))
                     (obj_rotation (set_dummy st i (fst s)))
                     (obj_scale (set_dummy st i (fst s)))]"
  by (cases s) (simp add: initGeometry_step_def Let_def)

text \<open>The matrix written to slot \<open>i\<close> is composed from \<open>dummy\<close> as the iterations up to
  \<open>i\<close> have left it.\<close>

lemma initGeometry_fold_nth:
  "n \<le> length buf \<Longrightarrow> i < n \<Longrightarrow>
   snd (fold (initGeometry_step um st) [0..<n] (d, buf)) ! i =
     um (obj_position (fold (set_dummy st) [0..<Suc i] d))
        (obj_rotation (fold (set_dummy st) [0..<Suc i] d))
        (obj_scale (fold (set_dummy st) [0..<Suc i] d))"
proof (induction n)
  case 0
  then show ?case by simp
next
  case (Suc n)
  define s where "s = fold (initGeometry_step um st) [0..<n] (d, buf)"
  have f: "fst s = fold (set_dummy st) [0..<n] d"
    unfolding s_def by (rule initGeometry_fold_dummy)
  have l: "length (snd s) = length buf"
    unfolding s_def by (rule initGeometry_fold_length)
  have step: "snd (fold (initGeometry_step um st) [0..<Suc n] (d, buf)) =
      (snd s)[n := um (obj_position (set_dummy st n (fst s)))
                      (obj_rotation (set_dummy st n (fst s)))
                      (obj_scale (set_dummy st n (fst s)))]"
    unfolding fold_upt_Suc s_def by (rule initGeometry_step_snd)
  show ?case
  proof (cases "i = n")
    case True
    have "n < length (snd s)" using Suc.prems l by simp
    then show ?thesis
      unfolding step True by (simp only: nth_list_update_eq fold_upt_Suc f)
  next
    case False
    then have "i < n" using Suc.prems by simp
    have "n \<le> length buf" using Suc.prems by simp
    from this \<open>i < n\<close> have "snd s ! i =
        um (obj_position (fold (set_dummy st) [0..<Suc i] d))
           (obj_rotation (fold (set_dummy st) [0..<Suc i] d))
           (obj_scale (fold (set_dummy st) [0..<Suc i] d))"
      unfolding s_def by (rule Suc.IH)
    then show ?thesis
      unfolding step using False by (simp only: nth_list_update_neq not_sym)
  qed
qed

lemma initGeometry_loop_nth:
  "length buf = N \<Longrightarrow> i < N \<Longrightarrow>
   snd (initGeometry_loop um st N (d, buf)) ! i =
     um (obj_position (fold (set_dummy st) [0..<Suc i] d))
        (obj_rotation (fold (set_dummy st) [0..<Suc i] d))
        (obj_scale (fold (set_dummy st) [0..<Suc i] d))"
  unfolding initGeometry_loop_def by (rule initGeometry_fold_nth) simp_all

text \<open>An iteration whose nine reads are all in range overwrites \<open>dummy\<close> completely; one
  whose reads are all past the end keeps the two \<open>z\<close> of the vectors.\<close>

lemma set_dummy_in_range:
  assumes "i * 3 + 2 < length (pos st)" "i * 3 + 2 < length (rot st)"
    "i * 3 + 2 < length (sca st)"
  shows "set_dummy st i d =
    \<lparr>obj_position = (Some (pos st ! (i * 3)), Some (pos st ! (i * 3 + 1)), Some (pos st ! (i * 3 + 2))),
     obj_rotation = (Some (rot st ! (i * 3)), Some (rot st ! (i * 3 + 1)), Some (rot st ! (i * 3 + 2))),
     obj_scale = (Some (sca st ! (i * 3)), Some (sca st ! (i * 3 + 1)), Some (sca st ! (i * 3 + 2)))\<rparr>"
  using assms
  by (simp add: set_dummy_def Vector3_set_def Euler_set_def get3_def js_get_def split: prod.splits)

lemma set_dummy_beyond:
  assumes "length (pos st) \<le> i * 3" "length (rot st) \<le> i * 3" "length (sca st) \<le> i * 3"
  shows "set_dummy st i d =
    \<lparr>obj_position = (None, None, snd (snd (obj_position d))),
     obj_rotation = (None, None, None),
     obj_scale = (None, None, snd (snd (obj_scale d)))\<rparr>"
  using assms
  by (simp add: set_dummy_def Vector3_set_def Euler_set_def get3_def js_get_def split: prod.splits)

text \<open>With the constants of the source: \<open>dummy\<close> after the iterations 1097, 1098, 1099.\<close>

lemma tree_dummy_1097:
  assumes "st = tree_layout rnd lookAt"
  shows "fold (set_dummy st) [0..<1098] d =
    \<lparr>obj_position = (Some (pos st ! 3291), Some (pos st ! 3292), Some (pos st ! 3293)),
     obj_rotation = (Some (rot st ! 3291), Some (rot st ! 3292), Some (rot st ! 3293)),
     obj_scale = (Some (sca st ! 3291), Some (sca st ! 3292), Some (sca st ! 3293))\<rparr>"
proof -
  have "set_dummy st 1097 (fold (set_dummy st) [0..<1097] d) =
    \<lparr>obj_position = (Some (pos st ! (1097 * 3)), Some (pos st ! (1097 * 3 + 1)),
        Some (pos st ! (1097 * 3 + 2))),
     obj_rotation = (Some (rot st ! (1097 * 3)), Some (rot st ! (1097 * 3 + 1)),
        Some (rot st ! (1097 * 3 + 2))),
     obj_scale = (Some (sca st ! (1097 * 3)), Some (sca st ! (1097 * 3 + 1)),
        Some (sca st ! (1097 * 3 + 2)))\<rparr>"
    by (rule set_dummy_in_range) (simp_all add: assms tree_layout_lengths)
  moreover have "fold (set_dummy st) [0..<1098] d =
      set_dummy st 1097 (fold (set_dummy st) [0..<1097] d)"
    using fold_upt_Suc [of "set_dummy st" 1097 d] by simp
  ultimately show ?thesis by simp
qed

lemma tree_dummy_1098:
  assumes "st = tree_layout rnd lookAt"
  shows "fold (set_dummy st) [0..<1099] d =
    \<lparr>obj_position = (None, None, Some (pos st ! 3293)),
     obj_rotation = (None, None, None),
     obj_scale = (None, None, Some (sca st ! 3293))\<rparr>"
proof -
  define d1 where "d1 = fold (set_dummy st) [0..<1098] d"
  have z: "snd (snd (obj_position d1)) = Some (pos st ! 3293)"
    "snd (snd (obj_scale d1)) = Some (sca st ! 3293)"
    unfolding d1_def by (simp_all add: tree_dummy_1097 [OF assms])
  have "set_dummy st 1098 d1 =
    \<lparr>obj_position = (None, None, snd (snd (obj_position d1))),
     obj_rotation = (None, None, None),
     obj_scale = (None, None, snd (snd (obj_scale d1)))\<rparr>"
    by (rule set_dummy_beyond) (simp_all add: assms tree_layout_lengths)
  moreover have "fold (set_dummy st) [0..<1099] d = set_dummy st 1098 d1"
    unfolding d1_def using fold_upt_Suc [of "set_dummy st" 1098 d] by simp
  ultimately show ?thesis by (simp add: z)
qed

lemma tree_dummy_1099:
  assumes "st = tree_layout rnd lookAt"
  shows "fold (set_dummy st) [0..<1100] d =
    \<lparr>obj_position = (None, None, Some (pos st ! 3293)),
     obj_rotation = (None, None, None),
     obj_scale = (None, None, Some (sca st ! 3293))\<rparr>"
proof -
  define d1 where "d1 = fold (set_dummy st) [0..<1099] d"
  have z: "snd (snd (obj_position d1)) = Some (pos st ! 3293)"
    "snd (snd (obj_scale d1)) = Some (sca st ! 3293)"
    unfolding d1_def by (simp_all add: tree_dummy_1098 [OF assms])
  have "set_dummy st 1099 d1 =
    \<lparr>obj_position = (None, None, snd (snd (obj_position d1))),
     obj_rotation = (None, None, None),
     obj_scale = (None, None, snd (snd (obj_scale d1)))\<rparr>"
    by (rule set_dummy_beyond) (simp_all add: assms tree_layout_lengths)
  moreover have "fold (set_dummy st) [0..<1100] d = set_dummy st 1099 d1"
    unfolding d1_def using fold_upt_Suc [of "set_dummy st" 1099 d] by simp
  ultimately show ?thesis by (simp add: z)
qed

text \<open>
  C10.  With the constants of the source the three arrays hold 1098 instances (3294
  numbers each).  The two effects, when their references are set, run the matrix loop
  and the colour loop over all 1100 slots of their buffers; for the instances 1098 and
  1099 every read of the arrays is past the end and yields \<open>undefined\<close>.  The matrix of
  either instance is therefore composed from a \<open>dummy\<close> whose rotation and whose \<open>x\<close> and
  \<open>y\<close> of position and scale are undefined, and whose two \<open>z\<close> are those that instance
  1097 left there; the colour is \<open>NaN\<close> in every channel.
\<close>

theorem last_two_instances_undefined:
  assumes "st = tree_layout rnd lookAt" "length buf = BRUSH_COUNT" "length attr = BRUSH_COUNT"
  shows "length (pos st) = 3 * 1098 \<and> length (rot st) = 3 * 1098 \<and> length (sca st) = 3 * 1098 \<and>
    initGeometry updateMatrix st (dummy, Some buf) =
      (fst (initGeometry_loop updateMatrix st BRUSH_COUNT (dummy, buf)),
       Some (snd (initGeometry_loop updateMatrix st BRUSH_COUNT (dummy, buf)))) \<and>
    updateColors mkColor rnd' th st (Some attr) =
      Some (updateColors_loop mkColor rnd' th st BRUSH_COUNT attr) \<and>
    get3 (pos st) 1098 = (None, None, None) \<and> get3 (pos st) 1099 = (None, None, None) \<and>
    get3 (rot st) 1098 = (None, None, None) \<and> get3 (rot st) 1099 = (None, None, None) \<and>
    get3 (sca st) 1098 = (None, None, None) \<and> get3 (sca st) 1099 = (None, None, None) \<and>
    length (snd (initGeometry_loop updateMatrix st BRUSH_COUNT (dummy, buf))) = 1100 \<and>
    snd (initGeometry_loop updateMatrix st BRUSH_COUNT (dummy, buf)) ! 1098 =
      updateMatrix (None, None, Some (pos st ! 3293)) (None, None, None)
        (None, None, Some (sca st ! 3293)) \<and>
    snd (initGeometry_loop updateMatrix st BRUSH_COUNT (dummy, buf)) ! 1099 =
      updateMatrix (None, None, Some (pos st ! 3293)) (None, None, None)
        (None, None, Some (sca st ! 3293)) \<and>
    length (updateColors_loop mkColor rnd' th st BRUSH_COUNT attr) = 1100 \<and>
    updateColors_loop mkColor rnd' th st BRUSH_COUNT attr ! 1098 = (NaN, NaN, NaN) \<and>
    updateColors_loop mkColor rnd' th st BRUSH_COUNT attr ! 1099 = (NaN, NaN, NaN)"
proof -
  have len: "length (pos st) = 3294" "length (rot st) = 3294" "length (sca st) = 3294"
    using assms(1) by (simp_all add: tree_layout_lengths)
  have g: "get3 (pos st) 1098 = (None, None, None)" "get3 (pos st) 1099 = (None, None, None)"
    "get3 (rot st) 1098 = (None, None, None)" "get3 (rot st) 1099 = (None, None, None)"
    "get3 (sca st) 1098 = (None, None, None)" "get3 (sca st) 1099 = (None, None, None)"
    by (simp_all add: get3_beyond len)
  have b: "length buf = 1100" using assms(2) by (simp add: BRUSH_COUNT_def)
  have m1: "snd (initGeometry_loop updateMatrix st 1100 (dummy, buf)) ! 1098 =
      updateMatrix (None, None, Some (pos st ! 3293)) (None, None, None)
        (None, None, Some (sca st ! 3293))"
    using initGeometry_loop_nth [OF b, of 1098 updateMatrix st dummy]
    by (simp add: tree_dummy_1098 [OF assms(1)])
  have m2: "snd (initGeometry_loop updateMatrix st 1100 (dummy, buf)) ! 1099 =
      updateMatrix (None, None, Some (pos st ! 3293)) (None, None, None)
        (None, None, Some (sca st ! 3293))"
    using initGeometry_loop_nth [OF b, of 1099 updateMatrix st dummy]
    by (simp add: tree_dummy_1099 [OF assms(1)])
  have c: "updateColors_loop mkColor rnd' th st BRUSH_COUNT attr ! 1098 = (NaN, NaN, NaN)"
    "updateColors_loop mkColor rnd' th st BRUSH_COUNT attr ! 1099 = (NaN, NaN, NaN)"
    using assms(3) by (simp_all add: color_beyond_layout BRUSH_COUNT_def len)
  have l: "length (snd (initGeometry_loop updateMatrix st 1100 (dummy, buf))) = 1100"
    "length (updateColors_loop mkColor rnd' th st BRUSH_COUNT attr) = 1100"
    using b assms(3)
    by (simp_all add: initGeometry_loop_def initGeometry_fold_length updateColors_loop_def
        fold_update_length BRUSH_COUNT_def)
  have e: "initGeometry updateMatrix st (dummy, Some buf) =
      (fst (initGeometry_loop updateMatrix st BRUSH_COUNT (dummy, buf)),
       Some (snd (initGeometry_loop updateMatrix st BRUSH_COUNT (dummy, buf))))"
    "updateColors mkColor rnd' th st (Some attr) =
      Some (updateColors_loop mkColor rnd' th st BRUSH_COUNT attr)"
    by (simp_all add: initGeometry_def updateColors_def split: prod.splits)
  have m: "snd (initGeometry_loop updateMatrix st BRUSH_COUNT (dummy, buf)) ! 1098 =
      updateMatrix (None, None, Some (pos st ! 3293)) (None, None, None)
        (None, None, Some (sca st ! 3293))"
    "snd (initGeometry_loop updateMatrix st BRUSH_COUNT (dummy, buf)) ! 1099 =
      updateMatrix (None, None, Some (pos st ! 3293)) (None, None, None)
        (None, None, Some (sca st ! 3293))"
    "length (snd (initGeometry_loop updateMatrix st BRUSH_COUNT (dummy, buf))) = 1100"
    using m1 m2 l(1) by (simp_all only: BRUSH_COUNT_def)
  have len3: "length (pos st) = 3 * 1098" "length (rot st) = 3 * 1098" "length (sca st) = 3 * 1098"
    using len by simp_all
  from len3 e g m l(2) c show ?thesis by blast
qed

theorem last_two_instances_undefined_witness:
  "length (replicate BRUSH_COUNT
      (sample_updateMatrix (obj_position new_object3d) (obj_rotation new_object3d)
         (obj_scale new_object3d))) = BRUSH_COUNT \<and>
   length (replicate BRUSH_COUNT (Num 0, Num 0, Num 0)) = BRUSH_COUNT \<and>
   length (pos (tree_layout (const_source 0) sample_lookAt)) = 3 * 1098 \<and>
   get3 (pos (tree_layout (const_source 0) sample_lookAt)) 1099 = (None, None, None) \<and>
   snd (initGeometry_loop sample_updateMatrix (tree_layout (const_source 0) sample_lookAt)
      BRUSH_COUNT
      (new_object3d, replicate BRUSH_COUNT
         (sample_updateMatrix (obj_position new_object3d) (obj_rotation new_object3d)
            (obj_scale new_object3d)))) ! 1099 =
     sample_updateMatrix
       (None, None, Some (pos (tree_layout (const_source 0) sample_lookAt) ! 3293))
       (None, None, None)
       (None, None, Some (sca (tree_layout (const_source 0) sample_lookAt) ! 3293)) \<and>
   updateColors_loop hex_color (const_source 0) green (tree_layout (const_source 0) sample_lookAt)
     BRUSH_COUNT (replicate BRUSH_COUNT (Num 0, Num 0, Num 0)) ! 1099 = (NaN, NaN, NaN)"
proof -
  have b: "length (replicate BRUSH_COUNT
      (sample_updateMatrix (obj_position new_object3d) (obj_rotation new_object3d)
         (obj_scale new_object3d))) = BRUSH_COUNT"
    by simp
  have a: "length (replicate BRUSH_COUNT (Num 0, Num 0, Num 0)) = BRUSH_COUNT"
    by simp
  note th = last_two_instances_undefined [OF refl b a,
      of "const_source 0" sample_lookAt sample_updateMatrix new_object3d hex_color
        "const_source 0" green]
  from th a b show ?thesis by blast
qed


section \<open>Properties of the curve\<close>

lemma fold_snoc: "fold (\<lambda>i acc. acc @ [f i]) xs acc = acc @ map f xs"
  by (induction xs arbitrary: acc) simp_all

lemma curve_points_map: "curve_points = map curve_point [0..<Suc segments]"
  unfolding curve_points_def by (simp only: fold_snoc append_Nil)

lemma cp0: "curve_point 0 = (4, - 3.2, 0)"
  by (simp add: curve_point_def Let_def hStart_def hEnd_def turns_def segments_def)

lemma cos7: "cos (7 * pi) = - 1"
  by simp

lemma sin7: "sin (7 * pi) = 0"
  by simp

lemma cp200: "curve_point 200 = (- 0.3, 5.8, 0)"
  using cos7 sin7 by (simp add: curve_point_def Let_def hStart_def hEnd_def turns_def segments_def algebra_simps)

lemma curve_points_nth: "i \<le> 200 \<Longrightarrow> curve_points ! i = curve_point i"
  by (simp add: curve_points_map segments_def del: upt_Suc)

lemma curve_point_eq:
  "curve_point i =
     (cos (real i / 200 * (2 * pi) * 3.5) * (3.7 * (1 - real i / 200) + 0.3),
      - 3.2 + real i / 200 * (5.8 - (- 3.2)),
      sin (real i / 200 * (2 * pi) * 3.5) * (3.7 * (1 - real i / 200) + 0.3))"
proof -
  have a: "x * pi * 2 * turns = x * (2 * pi) * 3.5" for x :: real
    by (simp add: turns_def)
  show ?thesis
    unfolding curve_point_def Let_def a by (simp add: hStart_def hEnd_def segments_def)
qed

text \<open>
  C6.  The curve has 201 control points; point \<open>i\<close>, with \<open>t = i / 200\<close>, is
  \<open>(cos(t * 2 pi * 3.5) * r, h, sin(t * 2 pi * 3.5) * r)\<close> with
  \<open>h = -3.2 + t * (5.8 - (-3.2))\<close> and \<open>r = 3.7 * (1 - t) + 0.3\<close>.  The first point has the
  base radius \<open>3.7 + 0.3\<close> and the base height \<open>-3.2\<close>, the last one the top radius \<open>0.3\<close>
  and the top height \<open>5.8\<close>.
\<close>

theorem curve_points_helix:
  "length curve_points = 201 \<and>
   (\<forall>i\<le>200. curve_points ! i =
      (cos (real i / 200 * (2 * pi) * 3.5) * (3.7 * (1 - real i / 200) + 0.3),
       - 3.2 + real i / 200 * (5.8 - (- 3.2)),
       sin (real i / 200 * (2 * pi) * 3.5) * (3.7 * (1 - real i / 200) + 0.3))) \<and>
   curve_points ! 0 = (3.7 + 0.3, - 3.2, 0) \<and>
   radius_xz (curve_points ! 0) = 3.7 + 0.3 \<and> height_of (curve_points ! 0) = - 3.2 \<and>
   curve_points ! 200 = (- 0.3, 5.8, 0) \<and>
   radius_xz (curve_points ! 200) = 0.3 \<and> height_of (curve_points ! 200) = 5.8"
proof (intro conjI allI impI)
  show "length curve_points = 201"
    by (simp add: curve_points_map segments_def del: upt_Suc)
next
  fix i :: nat
  assume "i \<le> 200"
  then show "curve_points ! i =
      (cos (real i / 200 * (2 * pi) * 3.5) * (3.7 * (1 - real i / 200) + 0.3),
       - 3.2 + real i / 200 * (5.8 - (- 3.2)),
       sin (real i / 200 * (2 * pi) * 3.5) * (3.7 * (1 - real i / 200) + 0.3))"
    by (simp only: curve_points_nth curve_point_eq)
next
  show "curve_points ! 0 = (3.7 + 0.3, - 3.2, 0)"
    by (simp add: curve_points_nth cp0)
  show "radius_xz (curve_points ! 0) = 3.7 + 0.3"
    by (simp add: curve_points_nth cp0 radius_xz_def)
  show "height_of (curve_points ! 0) = - 3.2"
    by (simp add: curve_points_nth cp0 height_of_def)
  show "curve_points ! 200 = (- 0.3, 5.8, 0)"
    by (simp add: curve_points_nth cp200)
  show "radius_xz (curve_points ! 200) = 0.3"
    by (simp add: curve_points_nth cp200 radius_xz_def)
  show "height_of (curve_points ! 200) = 5.8"
    by (simp add: curve_points_nth cp200 height_of_def)
qed

theorem curve_points_helix_witness:
  "(100::nat) \<le> 200 \<and>
   curve_points ! 100 =
      (cos (real 100 / 200 * (2 * pi) * 3.5) * (3.7 * (1 - real 100 / 200) + 0.3),
       - 3.2 + real 100 / 200 * (5.8 - (- 3.2)),
       sin (real 100 / 200 * (2 * pi) * 3.5) * (3.7 * (1 - real 100 / 200) + 0.3))"
proof -
  have i: "(100::nat) \<le> 200" by simp
  from curve_points_helix
  have "\<forall>i\<le>200. curve_points ! i =
      (cos (real i / 200 * (2 * pi) * 3.5) * (3.7 * (1 - real i / 200) + 0.3),
       - 3.2 + real i / 200 * (5.8 - (- 3.2)),
       sin (real i / 200 * (2 * pi) * 3.5) * (3.7 * (1 - real i / 200) + 0.3))"
    by blast
  from this [rule_format, OF i] i show ?thesis by blast
qed


section \<open>Properties of the text layout\<close>

lemma length_separator: "length separator = 7"
  by (simp add: separator_def ascii_def)

lemma repeat_nth:
  "i < k * length xs \<Longrightarrow> repeat xs k ! i = xs ! (i mod length xs)"
proof (induction k arbitrary: i)
  case 0
  then show ?case by simp
next
  case (Suc k)
  show ?case
  proof (cases "i < length xs")
    case True
    then show ?thesis by (simp add: repeat_def nth_append)
  next
    case False
    then have "i - length xs < k * length xs" using Suc.prems by simp
    then have "repeat xs k ! (i - length xs) = xs ! ((i - length xs) mod length xs)"
      by (rule Suc.IH)
    then show ?thesis using False
      by (simp add: repeat_def nth_append le_mod_geq)
  qed
qed

lemma length_repeat: "length (repeat xs k) = k * length xs"
  by (induction k) (simp_all add: repeat_def)

lemma ceil_covers:
  assumes "0 < n"
  shows "m \<le> nat \<lceil>real m / real n\<rceil> * n"
proof -
  define c where "c = nat \<lceil>real m / real n\<rceil>"
  have "real m / real n \<le> real c"
    unfolding c_def by (rule of_nat_ceiling)
  then have "real m \<le> real c * real n"
    using assms by (simp add: pos_divide_le_eq)
  then have "real m \<le> real (c * n)" by simp
  then have "m \<le> c * n" by (simp only: of_nat_le_iff)
  then show ?thesis by (simp add: c_def)
qed

lemma length_repeatedString: "length (repeatedString txt) = 140"
proof -
  have "0 < length (txt @ separator)" by (simp add: length_separator)
  from ceil_covers [OF this, of 140] show ?thesis
    by (simp add: repeatedString_def Let_def totalCharsNeeded_def length_repeat)
qed

lemma repeatedString_nth:
  assumes "i < 140"
  shows "repeatedString txt ! i = (txt @ separator) ! (i mod length (txt @ separator))"
proof -
  have "0 < length (txt @ separator)" by (simp add: length_separator)
  from ceil_covers [OF this, of 140]
  have "i < nat \<lceil>real 140 / real (length (txt @ separator))\<rceil> * length (txt @ separator)"
    using assms by simp
  then have "repeat (txt @ separator) (nat \<lceil>real 140 / real (length (txt @ separator))\<rceil>) ! i
      = (txt @ separator) ! (i mod length (txt @ separator))"
    by (rule repeat_nth)
  then show ?thesis using assms
    by (simp add: repeatedString_def Let_def totalCharsNeeded_def)
qed

lemma textLayout_map:
  "txt \<noteq> [] \<Longrightarrow> textLayout gp at2 txt =
     map (place_glyph gp at2 (repeatedString txt)) [0..<140]"
  by (simp add: textLayout_def Let_def fold_snoc length_repeatedString del: upt_Suc)

lemma textLayout_chars:
  assumes "txt \<noteq> []"
  shows "map glyph_char (textLayout gp at2 txt) = repeatedString txt"
proof -
  have "map glyph_char (textLayout gp at2 txt) = map (\<lambda>i. repeatedString txt ! i) [0..<140]"
    using assms by (simp add: textLayout_map place_glyph_def Let_def comp_def del: upt_Suc)
  also have "\<dots> = repeatedString txt"
    using map_nth [of "repeatedString txt"] by (simp add: length_repeatedString del: upt_Suc)
  finally show ?thesis .
qed

lemma glyph_t_eq: "glyph_t 140 i = 0.98 - real i * ((0.98 - 0.02) / 140)"
  by (simp add: glyph_t_def Let_def startT_def endT_def)

lemma glyph_t_range: "i < 140 \<Longrightarrow> 0.001 \<le> glyph_t 140 i \<and> glyph_t 140 i \<le> 0.999"
  by (simp add: glyph_t_def Let_def startT_def endT_def)

lemma safeT_id: "i < 140 \<Longrightarrow> safeT (glyph_t 140 i) = glyph_t 140 i"
  using glyph_t_range [of i] by (simp add: safeT_def)

lemma glyph_t_decreasing: "i < j \<Longrightarrow> glyph_t 140 j < glyph_t 140 i"
  by (simp add: glyph_t_def Let_def startT_def endT_def)

text \<open>
  C4.  The layout of the empty string is empty.  For every non-empty text the layout
  has exactly 140 glyphs, whatever the length of the text, and their characters are
  the first 140 code units of the text with the separator appended, repeated
  \<open>ceil(140 / length)\<close> times: glyph \<open>i\<close> shows unit \<open>i mod length\<close> of the combined string.
\<close>

theorem textLayout_empty_or_full:
  "textLayout getPointAt atan2 [] = [] \<and>
   (txt \<noteq> [] \<longrightarrow>
      length (textLayout getPointAt atan2 txt) = 140 \<and>
      map glyph_char (textLayout getPointAt atan2 txt) =
        take 140 (repeat (txt @ separator) (nat \<lceil>140 / real (length (txt @ separator))\<rceil>)) \<and>
      (\<forall>i<140. glyph_char (textLayout getPointAt atan2 txt ! i) =
         (txt @ separator) ! (i mod length (txt @ separator))))"
proof (intro conjI impI allI)
  show "textLayout getPointAt atan2 [] = []" by (simp add: textLayout_def)
next
  assume "txt \<noteq> []"
  then show "length (textLayout getPointAt atan2 txt) = 140"
    by (simp add: textLayout_map del: upt_Suc)
next
  assume "txt \<noteq> []"
  then show "map glyph_char (textLayout getPointAt atan2 txt) =
      take 140 (repeat (txt @ separator) (nat \<lceil>140 / real (length (txt @ separator))\<rceil>))"
    by (simp add: textLayout_chars repeatedString_def Let_def totalCharsNeeded_def)
next
  fix i :: nat
  assume t: "txt \<noteq> []" and i: "i < 140"
  then have "glyph_char (textLayout getPointAt atan2 txt ! i) = repeatedString txt ! i"
    by (simp add: textLayout_map place_glyph_def Let_def del: upt_Suc)
  then show "glyph_char (textLayout getPointAt atan2 txt ! i) =
      (txt @ separator) ! (i mod length (txt @ separator))"
    using i by (simp add: repeatedString_nth)
qed

theorem textLayout_empty_or_full_witness:
  "ascii ''HI'' \<noteq> [] \<and>
   length (textLayout sample_getPointAt sample_atan2 (ascii ''HI'')) = 140 \<and>
   glyph_char (textLayout sample_getPointAt sample_atan2 (ascii ''HI'') ! 0) = of_char CHR ''H'' \<and>
   glyph_char (textLayout sample_getPointAt sample_atan2 (ascii ''HI'') ! 10) = of_char CHR ''I''"
proof -
  have ne: "ascii ''HI'' \<noteq> []" by (simp add: ascii_def)
  have len: "length (ascii ''HI'' @ separator) = 9" by (simp add: ascii_def length_separator)
  from textLayout_empty_or_full [of sample_getPointAt sample_atan2 "ascii ''HI''"] ne
  have l: "length (textLayout sample_getPointAt sample_atan2 (ascii ''HI'')) = 140"
    and c: "\<forall>i<140. glyph_char (textLayout sample_getPointAt sample_atan2 (ascii ''HI'') ! i) =
         (ascii ''HI'' @ separator) ! (i mod length (ascii ''HI'' @ separator))"
    by blast+
  from c [rule_format, of 0]
  have c0: "glyph_char (textLayout sample_getPointAt sample_atan2 (ascii ''HI'') ! 0) = of_char CHR ''H''"
    unfolding len by (simp add: ascii_def)
  from c [rule_format, of 10]
  have c10: "glyph_char (textLayout sample_getPointAt sample_atan2 (ascii ''HI'') ! 10) = of_char CHR ''I''"
    unfolding len by (simp add: ascii_def)
  from ne l c0 c10 show ?thesis by blast
qed

text \<open>
  C5.  For every non-empty text and every glyph index \<open>i < 140\<close>: the glyph sits at the
  curve point of parameter \<open>0.98 - i * ((0.98 - 0.02) / 140)\<close> clamped into
  \<open>[0.001, 0.999]\<close>, its yaw is \<open>atan2\<close> of the point's \<open>x\<close> and \<open>z\<close>, and every later
  glyph has a strictly smaller parameter (the text walks backward from the top of the
  curve).  For the text MERRY CHRISTMAS the first 23 glyphs read, in that order, the
  text, the separator and the first letter again.
\<close>

theorem glyph_placement:
  assumes "txt \<noteq> []" "i < 140"
  shows "glyph_position (textLayout getPointAt atan2 txt ! i) = getPointAt (safeT (glyph_t 140 i)) \<and>
    glyph_t 140 i = 0.98 - real i * ((0.98 - 0.02) / 140) \<and>
    safeT (glyph_t 140 i) = min 0.999 (max 0.001 (glyph_t 140 i)) \<and>
    glyph_rotation (textLayout getPointAt atan2 txt ! i) =
      (case getPointAt (safeT (glyph_t 140 i)) of (x, y, z) \<Rightarrow> (0, atan2 x z, 0)) \<and>
    glyph_char (textLayout getPointAt atan2 txt ! i) =
      (txt @ separator) ! (i mod length (txt @ separator)) \<and>
    (\<forall>j<140. i < j \<longrightarrow> safeT (glyph_t 140 j) < safeT (glyph_t 140 i)) \<and>
    map glyph_char (take 23 (textLayout getPointAt atan2 (ascii ''MERRY CHRISTMAS''))) =
      ascii ''MERRY CHRISTMAS   '' @ [0x2605] @ ascii ''   M''"
proof (intro conjI allI impI)
  show "glyph_position (textLayout getPointAt atan2 txt ! i) = getPointAt (safeT (glyph_t 140 i))"
    using assms
    by (simp add: textLayout_map place_glyph_def Let_def length_repeatedString del: upt_Suc)
next
  show "glyph_t 140 i = 0.98 - real i * ((0.98 - 0.02) / 140)" by (rule glyph_t_eq)
next
  show "safeT (glyph_t 140 i) = min 0.999 (max 0.001 (glyph_t 140 i))" by (simp add: safeT_def)
next
  show "glyph_rotation (textLayout getPointAt atan2 txt ! i) =
      (case getPointAt (safeT (glyph_t 140 i)) of (x, y, z) \<Rightarrow> (0, atan2 x z, 0))"
    using assms
    by (simp add: textLayout_map place_glyph_def Let_def length_repeatedString
        split: prod.splits del: upt_Suc)
next
  have "glyph_char (textLayout getPointAt atan2 txt ! i) = repeatedString txt ! i"
    using assms by (simp add: textLayout_map place_glyph_def Let_def del: upt_Suc)
  then show "glyph_char (textLayout getPointAt atan2 txt ! i) =
      (txt @ separator) ! (i mod length (txt @ separator))"
    using assms by (simp add: repeatedString_nth)
next
  fix j :: nat
  assume "j < 140" "i < j"
  then show "safeT (glyph_t 140 j) < safeT (glyph_t 140 i)"
    using assms by (simp add: safeT_id glyph_t_decreasing)
next
  have "ascii ''MERRY CHRISTMAS'' \<noteq> []" by (simp add: ascii_def)
  then have "map glyph_char (textLayout getPointAt atan2 (ascii ''MERRY CHRISTMAS'')) =
      repeatedString (ascii ''MERRY CHRISTMAS'')"
    by (rule textLayout_chars)
  then have "map glyph_char (take 23 (textLayout getPointAt atan2 (ascii ''MERRY CHRISTMAS''))) =
      take 23 (repeatedString (ascii ''MERRY CHRISTMAS''))"
    by (simp only: take_map [symmetric])
  also have "\<dots> = ascii ''MERRY CHRISTMAS   '' @ [0x2605] @ ascii ''   M''"
    by (simp add: repeatedString_def repeat_def separator_def ascii_def totalCharsNeeded_def
        Let_def eval_nat_numeral)
  finally show "map glyph_char (take 23 (textLayout getPointAt atan2 (ascii ''MERRY CHRISTMAS''))) =
      ascii ''MERRY CHRISTMAS   '' @ [0x2605] @ ascii ''   M''" .
qed

theorem glyph_placement_witness:
  "ascii ''MERRY CHRISTMAS'' \<noteq> [] \<and> (22::nat) < 140 \<and>
   glyph_position (textLayout sample_getPointAt sample_atan2 (ascii ''MERRY CHRISTMAS'') ! 22) =
     sample_getPointAt (safeT (glyph_t 140 22)) \<and>
   glyph_char (textLayout sample_getPointAt sample_atan2 (ascii ''MERRY CHRISTMAS'') ! 22) =
     of_char CHR ''M'' \<and>
   safeT (glyph_t 140 23) < safeT (glyph_t 140 22)"
proof -
  have ne: "ascii ''MERRY CHRISTMAS'' \<noteq> []" by (simp add: ascii_def)
  have i: "(22::nat) < 140" by simp
  have len: "length (ascii ''MERRY CHRISTMAS'' @ separator) = 22"
    by (simp add: ascii_def length_separator)
  note th = glyph_placement [OF ne i, of sample_getPointAt sample_atan2]
  from th have p: "glyph_position (textLayout sample_getPointAt sample_atan2 (ascii ''MERRY CHRISTMAS'') ! 22) =
     sample_getPointAt (safeT (glyph_t 140 22))" by blast
  from th have "glyph_char (textLayout sample_getPointAt sample_atan2 (ascii ''MERRY CHRISTMAS'') ! 22) =
      (ascii ''MERRY CHRISTMAS'' @ separator) ! (22 mod length (ascii ''MERRY CHRISTMAS'' @ separator))"
    by blast
  then have c: "glyph_char (textLayout sample_getPointAt sample_atan2 (ascii ''MERRY CHRISTMAS'') ! 22) =
     of_char CHR ''M''"
    unfolding len by (simp add: ascii_def)
  from th have "\<forall>j<140. 22 < j \<longrightarrow> safeT (glyph_t 140 j) < safeT (glyph_t 140 22)" by blast
  from this [rule_format, of 23] have d: "safeT (glyph_t 140 23) < safeT (glyph_t 140 22)" by simp
  from ne i p c d show ?thesis by blast
qed


section \<open>Properties of the falling snow\<close>

lemma fall_py: "py (fall p) = (if py p - speed p < - 5 then 15 else py p - speed p)"
  by (simp add: fall_def py_def Let_def split: prod.splits)

lemma fall_speed: "speed (fall p) = speed p"
  by (simp add: fall_def Let_def split: prod.splits)

lemma fall_iter_speed: "speed ((fall ^^ n) p) = speed p"
  by (induction n) (simp_all add: fall_speed)

lemma fall_iter_bounds:
  assumes "0 \<le> speed p" "- 5 \<le> py p"
  shows "- 5 \<le> py ((fall ^^ n) p) \<and> py ((fall ^^ n) p) \<le> max 15 (py p - real n * speed p)"
proof (induction n)
  case 0
  then show ?case using assms by simp
next
  case (Suc n)
  have s: "speed ((fall ^^ n) p) = speed p" by (rule fall_iter_speed)
  have "py p - real (Suc n) * speed p = py p - real n * speed p - speed p"
    by (simp add: algebra_simps)
  then show ?case using Suc assms(1)
    by (simp add: fall_py s) linarith
qed

lemma snow_frame_None: "snow_frame time (ps, None) = (ps, None)"
  by (simp add: snow_frame_def)

lemma snow_frames_None: "snow_frames clock (ps, None) = (ps, None)"
  unfolding snow_frames_def by (induction clock) (simp_all add: snow_frame_None)

lemma snow_frame_Some:
  "\<exists>buf'. snow_frame time (ps, Some buf) = (map fall ps, Some buf')"
  by (simp add: snow_frame_def Let_def)

lemma snow_frames_Some:
  "\<exists>buf'. snow_frames clock (ps, Some buf) = (map (fall ^^ length clock) ps, Some buf')"
proof (induction clock arbitrary: ps buf)
  case Nil
  then show ?case by (simp add: snow_frames_def)
next
  case (Cons t clock)
  obtain b1 where b1: "snow_frame t (ps, Some buf) = (map fall ps, Some b1)"
    using snow_frame_Some by blast
  obtain b2 where "snow_frames clock (map fall ps, Some b1) =
      (map (fall ^^ length clock) (map fall ps), Some b2)"
    using Cons by blast
  then have "snow_frames (t # clock) (ps, Some buf) = (map (fall ^^ length (t # clock)) ps, Some b2)"
    by (simp add: snow_frames_def b1 funpow_swap1)
  then show ?case by blast
qed

lemma new_particle_py: "py (new_particle rnd j) = rnd (7 * j + 1) * 20"
  by (simp add: new_particle_def py_def)

lemma new_particle_speed: "speed (new_particle rnd j) = 0.03 + rnd (7 * j + 3) * 0.05"
  by (simp add: new_particle_def)

lemma new_particle_bounds:
  assumes "uniform01 rnd"
  shows "0 \<le> py (new_particle rnd j) \<and> py (new_particle rnd j) < 20 \<and>
    0.03 \<le> speed (new_particle rnd j) \<and> speed (new_particle rnd j) < 0.08"
proof -
  have "0 \<le> rnd (7 * j + 1)" "rnd (7 * j + 1) < 1" "0 \<le> rnd (7 * j + 3)" "rnd (7 * j + 3) < 1"
    using assms by (simp_all add: uniform01_def)
  then show ?thesis by (simp add: new_particle_def py_def)
qed

lemma particles_set:
  "p \<in> set (particles rnd) \<Longrightarrow> \<exists>j. p = new_particle rnd j"
  by (auto simp: particles_def)

lemma fallen_particle_bounds:
  assumes "uniform01 rnd" "p \<in> set (particles rnd)"
  shows "- 5 \<le> py ((fall ^^ n) p) \<and> py ((fall ^^ n) p) < 20 \<and>
    (167 \<le> n \<longrightarrow> py ((fall ^^ n) p) \<le> 15)"
proof -
  obtain j where j: "p = new_particle rnd j" using assms(2) particles_set by blast
  have b: "0 \<le> py p" "py p < 20" "0.03 \<le> speed p" "speed p < 0.08"
    using new_particle_bounds [OF assms(1), of j] by (simp_all add: j)
  then have f: "- 5 \<le> py ((fall ^^ n) p)" "py ((fall ^^ n) p) \<le> max 15 (py p - real n * speed p)"
    using fall_iter_bounds [of p n] by simp_all
  have "0 \<le> real n * speed p" using b by simp
  then have "py p - real n * speed p < 20" using b by linarith
  then have lt: "py ((fall ^^ n) p) < 20" using f by simp
  have "py ((fall ^^ n) p) \<le> 15" if "167 \<le> n"
  proof -
    have "real 167 * 0.03 \<le> real n * speed p"
      using that b by (intro mult_mono) simp_all
    then have "py p - real n * speed p \<le> 15" using b by simp
    then show ?thesis using f by simp
  qed
  then show ?thesis using f lt by blast
qed

text \<open>
  C7, as amended.  For every population built from a random source with values in
  \<open>[0, 1)\<close> and every run of frames, the number of particles stays \<open>snow_count\<close> and every
  stored height lies in \<open>[-5, 20)\<close>; once at least 167 frames have updated the
  particles (the mesh being present), every stored height lies in \<open>[-5, 15]\<close>.
\<close>

theorem snow_count_and_heights:
  assumes "uniform01 rnd" "snow_frames clock (particles rnd, mesh) = (ps, mesh')"
  shows "length ps = snow_count \<and>
    (\<forall>p\<in>set ps. - 5 \<le> py p \<and> py p < 20) \<and>
    (mesh \<noteq> None \<and> 167 \<le> length clock \<longrightarrow> (\<forall>p\<in>set ps. py p \<le> 15))"
proof (cases mesh)
  case None
  then have ps: "ps = particles rnd" using assms(2) by (simp add: snow_frames_None)
  have "- 5 \<le> py p \<and> py p < 20" if "p \<in> set (particles rnd)" for p
    using fallen_particle_bounds [OF assms(1) that, of 0] by simp
  then show ?thesis using None by (simp add: ps particles_def)
next
  case (Some buf)
  then have ps: "ps = map (fall ^^ length clock) (particles rnd)"
    using assms(2) snow_frames_Some [of clock "particles rnd" buf] by auto
  show ?thesis
    using fallen_particle_bounds [OF assms(1)] by (auto simp: ps particles_def)
qed

theorem snow_count_and_heights_witness:
  "uniform01 (const_source 0) \<and>
   Some (replicate snow_count zero_transform) \<noteq> None \<and>
   167 \<le> length (replicate 167 (0::real)) \<and>
   length (fst (snow_frames (replicate 167 0)
      (particles (const_source 0), Some (replicate snow_count zero_transform)))) = snow_count \<and>
   - 5 \<le> py (fst (snow_frames (replicate 167 0)
      (particles (const_source 0), Some (replicate snow_count zero_transform))) ! 0) \<and>
   py (fst (snow_frames (replicate 167 0)
      (particles (const_source 0), Some (replicate snow_count zero_transform))) ! 0) \<le> 15"
proof -
  have u: "uniform01 (const_source 0)" by (simp add: uniform01_def const_source_def)
  obtain ps m where r: "snow_frames (replicate 167 0)
      (particles (const_source 0), Some (replicate snow_count zero_transform)) = (ps, m)"
    by (cases "snow_frames (replicate 167 0)
      (particles (const_source 0), Some (replicate snow_count zero_transform))")
  from snow_count_and_heights [OF u r]
  have l: "length ps = snow_count" and h: "\<forall>p\<in>set ps. - 5 \<le> py p \<and> py p \<le> 15"
    by auto
  from l have "ps ! 0 \<in> set ps" by (simp add: snow_count_def)
  with h have "- 5 \<le> py (ps ! 0) \<and> py (ps ! 0) \<le> 15" by blast
  with u l show ?thesis by (simp add: r)
qed

text \<open>
  C7 as stated fails: a particle built with height 19 (the random source returning
  0.95) is still above 15 after one frame.
\<close>

theorem snow_height_counterexample:
  "15 < py (fst (snow_frames [0] (particles (const_source 0.95),
      Some (replicate snow_count zero_transform))) ! 0)"
proof -
  obtain b where "snow_frames [0] (particles (const_source 0.95),
      Some (replicate snow_count zero_transform)) = (map (fall ^^ length [0::real]) (particles (const_source 0.95)), Some b)"
    using snow_frames_Some by blast
  then have e: "fst (snow_frames [0] (particles (const_source 0.95),
      Some (replicate snow_count zero_transform))) ! 0 = fall (new_particle (const_source 0.95) 0)"
    by (simp add: particles_def snow_count_def del: upt_Suc)
  have "15 < py (fall (new_particle (const_source 0.95) 0))"
    by (simp add: fall_py new_particle_py new_particle_speed const_source_def)
  then show ?thesis by (simp only: e)
qed


section \<open>Properties of the background blend\<close>

text \<open>
  C8.  For every non-negative frame delta, every current colour and every target, the
  frame blends the current colour toward the target by \<open>min(delta, 0.1) * 2\<close>; the
  result lies on the segment from the prior colour to the target, however large the
  delta, and becomes the scene background.
\<close>

theorem background_never_overshoots:
  assumes "0 \<le> delta"
  shows "currentColor (background_frame target delta s) =
      lerp (currentColor s) target (min delta 0.1 * 2) \<and>
    min delta 0.1 \<le> 0.1 \<and>
    on_segment (currentColor s) target (currentColor (background_frame target delta s)) \<and>
    background (the_scene (background_frame target delta s)) =
      Some (currentColor (background_frame target delta s))"
proof -
  have c: "currentColor (background_frame target delta s) =
      lerp (currentColor s) target (min delta 0.1 * 2)"
    by (simp add: background_frame_def Let_def)
  have "0 \<le> min delta 0.1 * 2" "min delta 0.1 * 2 \<le> 1" using assms by simp_all
  then have "on_segment (currentColor s) target (lerp (currentColor s) target (min delta 0.1 * 2))"
    unfolding on_segment_def by blast
  then show ?thesis using c by (simp add: background_frame_def Let_def)
qed

theorem background_never_overshoots_witness:
  "(0::real) \<le> 1000 \<and>
   on_segment (0, 0, 0) (1, 1, 1)
     (currentColor (background_frame (1, 1, 1) 1000
        \<lparr>currentColor = (0, 0, 0), the_scene = \<lparr>background = None, fog = None\<rparr>\<rparr>)) \<and>
   currentColor (background_frame (1, 1, 1) 1000
        \<lparr>currentColor = (0, 0, 0), the_scene = \<lparr>background = None, fog = None\<rparr>\<rparr>) = (0.2, 0.2, 0.2)"
proof -
  have d: "(0::real) \<le> 1000" by simp
  note th = background_never_overshoots [OF d, of "(1, 1, 1)"
      "\<lparr>currentColor = (0, 0, 0), the_scene = \<lparr>background = None, fog = None\<rparr>\<rparr>"]
  from th [THEN conjunct2, THEN conjunct2, THEN conjunct1]
  have a: "on_segment (0, 0, 0) (1, 1, 1)
     (currentColor (background_frame (1, 1, 1) 1000
        \<lparr>currentColor = (0, 0, 0), the_scene = \<lparr>background = None, fog = None\<rparr>\<rparr>))"
    by simp
  from th [THEN conjunct1] have b: "currentColor (background_frame (1, 1, 1) 1000
        \<lparr>currentColor = (0, 0, 0), the_scene = \<lparr>background = None, fog = None\<rparr>\<rparr>) = (0.2, 0.2, 0.2)"
    by simp
  from d a b show ?thesis by blast
qed

end
